theory Spec2Isabelle
  imports Complex_Main
begin

section \<open>JavaScript values\<close>

text \<open>
  A JavaScript number is a binary64 value. A finite one is kept as the real number it
  denotes (the sign of zero is not kept), and \<open>jsnum\<close> adds the three special values.
  The numbers that come from outside (JSON bodies, the draw of \<open>Math.random()\<close>) are
  binary64 values already; every \<open>+\<close>, \<open>-\<close>, \<open>*\<close> and \<open>/\<close> of the source rounds its
  exact result to binary64, and a decimal literal of the source denotes the binary64 value
  nearest to it. Strings are byte lists; the Chinese literals of the source are written as
  their UTF-8 bytes, with the English meaning beside them.
\<close>

type_synonym number = real

datatype jsnum = Finite real | PosInfinity | NegInfinity | NaN

text \<open>Rounding to binary64, to nearest with ties to even. \<open>pow2 k\<close> is the power of two
  with the integer exponent \<open>k\<close>. A number whose magnitude lies in \<open>[2^k, 2^(k+1))\<close> is
  rounded to a multiple of \<open>2^(k - 52)\<close>, and below the normal range to a multiple of
  \<open>2^(-1074)\<close>. \<open>binary64\<close> rounds as if the exponent had no upper bound; \<open>number_of\<close>
  turns a rounded value of magnitude \<open>2^1024\<close> or more into an infinity.\<close>

definition pow2 :: "int \<Rightarrow> real" where
  "pow2 k = (if 0 \<le> k then 2 ^ nat k else 1 / 2 ^ nat (- k))"

definition roundeven :: "real \<Rightarrow> int" where
  "roundeven x =
     (let f = \<lfloor>x\<rfloor>; d = x - of_int f
      in if d < 1 / 2 then f else if 1 / 2 < d then f + 1 else if even f then f else f + 1)"

definition binary64 :: "real \<Rightarrow> number" where
  "binary64 x =
     (if x = 0 then 0
      else (let e = max \<lfloor>log 2 \<bar>x\<bar>\<rfloor> (- 1022) - 52
            in of_int (roundeven (x / pow2 e)) * pow2 e))"

definition number_of :: "real \<Rightarrow> jsnum" where
  "number_of y =
     (if 2 ^ 1024 \<le> y then PosInfinity
      else if y \<le> - (2 ^ 1024) then NegInfinity
      else Finite y)"

datatype json =
    JNull
  | JBool bool
  | JNum real
  | JStr string
  | JArr "json list"
  | JObj "(string \<times> json) list"

type_synonym obj = "(string \<times> json) list"

text \<open>The errors that the modelled code can throw, with their messages.\<close>

datatype js_error = ReferenceError string | TypeError string | SyntaxError string

fun error_message :: "js_error \<Rightarrow> string" where
  "error_message (ReferenceError m) = m"
| "error_message (TypeError m) = m"
| "error_message (SyntaxError m) = m"

text \<open>\<open>Math.max\<close>, \<open>Math.min\<close> on finite numbers, and \<open>clamp\<close> of mockData.js:
  \<^verbatim>\<open>const clamp = (value, min, max) => Math.min(Math.max(value, min), max);\<close>\<close>

definition clamp :: "number \<Rightarrow> number \<Rightarrow> number \<Rightarrow> number" where
  "clamp v lo hi = min (max v lo) hi"

text \<open>\<^verbatim>\<open>const random = (min, max) => Math.random() * (max - min) + min;\<close>
  The draw \<open>u\<close> of \<open>Math.random()\<close> is an argument; it lies in \<open>[0, 1)\<close>. The three
  operations round in turn.\<close>

definition random :: "number \<Rightarrow> number \<Rightarrow> number \<Rightarrow> number" where
  "random u lo hi = binary64 (binary64 (u * binary64 (hi - lo)) + lo)"

section \<open>backend/data/mockData.js: tasks\<close>

text \<open>A task object \<open>{id, name, status, progress}\<close>. The field names carry the prefix
  \<open>task_\<close> because \<open>id\<close> is a constant of HOL.\<close>

record task =
  task_id :: int
  task_name :: string
  task_status :: string
  task_progress :: number

text \<open>The argument of \<open>createTask\<close> and \<open>updateTask\<close>: every field may be absent
  (\<open>undefined\<close>).\<close>

record taskData =
  td_name :: "string option"
  td_status :: "string option"
  td_progress :: "number option"

definition name_A :: string where \<comment> \<open>"zone A irrigation job"\<close>
  "name_A = [CHR ''A'', CHR 0xE5, CHR 0x8C, CHR 0xBA, CHR 0xE7, CHR 0x81, CHR 0x8C, CHR 0xE6,
     CHR 0xBA, CHR 0x89, CHR 0xE4, CHR 0xBD, CHR 0x9C, CHR 0xE4, CHR 0xB8, CHR 0x9A]"

definition name_B :: string where \<comment> \<open>"zone B pest detection"\<close>
  "name_B = [CHR ''B'', CHR 0xE5, CHR 0x8C, CHR 0xBA, CHR 0xE7, CHR 0x97, CHR 0x85, CHR 0xE8,
     CHR 0x99, CHR 0xAB, CHR 0xE5, CHR 0xAE, CHR 0xB3, CHR 0xE6, CHR 0xA3, CHR 0x80, CHR 0xE6,
     CHR 0xB5, CHR 0x8B]"

definition name_D :: string where \<comment> \<open>"zone D fertilizing job"\<close>
  "name_D = [CHR ''D'', CHR 0xE5, CHR 0x8C, CHR 0xBA, CHR 0xE6, CHR 0x96, CHR 0xBD, CHR 0xE8,
     CHR 0x82, CHR 0xA5, CHR 0xE4, CHR 0xBD, CHR 0x9C, CHR 0xE4, CHR 0xB8, CHR 0x9A]"

text \<open>\<^verbatim>\<open>let tasks = [ {id: 1, ..., status: 'active', progress: 45}, {id: 2, ...}, {id: 3, ...} ];\<close>\<close>

definition initial_tasks :: "task list" where
  "initial_tasks =
    [\<lparr>task_id = 1, task_name = name_A, task_status = ''active'', task_progress = 45\<rparr>,
     \<lparr>task_id = 2, task_name = name_B, task_status = ''pending'', task_progress = 0\<rparr>,
     \<lparr>task_id = 3, task_name = name_D, task_status = ''done'', task_progress = 100\<rparr>]"

text \<open>\<^verbatim>\<open>const newId = tasks.length > 0 ? Math.max(...tasks.map(t => t.id)) + 1 : 1;\<close>\<close>

definition newId :: "task list \<Rightarrow> int" where
  "newId tasks = (if length tasks > 0 then Max (set (map task_id tasks)) + 1 else 1)"

text \<open>\<open>a || b\<close> on an optional string and on an optional number: the empty string, the
  number zero and \<open>undefined\<close> are falsy.\<close>

definition or_string :: "string option \<Rightarrow> string \<Rightarrow> string" where
  "or_string a b = (case a of None \<Rightarrow> b | Some s \<Rightarrow> if s = [] then b else s)"

definition or_number :: "number option \<Rightarrow> number \<Rightarrow> number" where
  "or_number a b = (case a of None \<Rightarrow> b | Some n \<Rightarrow> if n = 0 then b else n)"

text \<open>\<open>createTask(taskData)\<close>: the new task is pushed at the end of the list and returned.
  The controller only calls it with a name, so the name is a string here.\<close>

definition createTask :: "string \<Rightarrow> string option \<Rightarrow> number option \<Rightarrow> task list \<Rightarrow> task \<times> task list" where
  "createTask nm st pr tasks =
     (let newTask = \<lparr>task_id = newId tasks, task_name = nm,
                      task_status = or_string st ''pending'',
                      task_progress = or_number pr 0\<rparr>
      in (newTask, tasks @ [newTask]))"

text \<open>\<open>updateTask(taskId, updateData)\<close>: the first task with that id is changed in place;
  \<open>null\<close> (here \<open>None\<close>) when there is none.\<close>

definition apply_update :: "taskData \<Rightarrow> task \<Rightarrow> task" where
  "apply_update d t =
     (let t1 = (case td_name d of None \<Rightarrow> t | Some n \<Rightarrow> t\<lparr>task_name := n\<rparr>);
          t2 = (case td_status d of None \<Rightarrow> t1 | Some s \<Rightarrow> t1\<lparr>task_status := s\<rparr>);
          t3 = (case td_progress d of None \<Rightarrow> t2 | Some p \<Rightarrow> t2\<lparr>task_progress := clamp p 0 100\<rparr>)
      in t3)"

fun update_first :: "int \<Rightarrow> taskData \<Rightarrow> task list \<Rightarrow> task list" where
  "update_first taskId d [] = []"
| "update_first taskId d (t # ts) =
     (if task_id t = taskId then apply_update d t # ts else t # update_first taskId d ts)"

definition updateTask :: "int \<Rightarrow> taskData \<Rightarrow> task list \<Rightarrow> task option \<times> task list" where
  "updateTask taskId d tasks =
     (case find (\<lambda>t. task_id t = taskId) tasks of
        None \<Rightarrow> (None, tasks)
      | Some t \<Rightarrow> (Some (apply_update d t), update_first taskId d tasks))"

text \<open>\<^verbatim>\<open>tasks = tasks.filter(t => t.id !== taskId); return tasks.length < initialLength;\<close>\<close>

definition deleteTask :: "int \<Rightarrow> task list \<Rightarrow> bool \<times> task list" where
  "deleteTask taskId tasks =
     (let tasks' = filter (\<lambda>t. task_id t \<noteq> taskId) tasks
      in (length tasks' < length tasks, tasks'))"

definition getTasks :: "task list \<Rightarrow> task list" where
  "getTasks tasks = tasks"

text \<open>A sequence of operations on the task list.\<close>

datatype task_op =
    Create string "string option" "number option"
  | Update int taskData
  | Delete int

fun task_step :: "task list \<Rightarrow> task_op \<Rightarrow> task list" where
  "task_step ts (Create nm st pr) = snd (createTask nm st pr ts)"
| "task_step ts (Update i d) = snd (updateTask i d ts)"
| "task_step ts (Delete i) = snd (deleteTask i ts)"

definition run_tasks :: "task list \<Rightarrow> task_op list \<Rightarrow> task list" where
  "run_tasks ts ops = foldl task_step ts ops"

section \<open>backend/data/mockData.js: state and statistics\<close>

text \<open>The module variable \<open>state\<close>.\<close>

record state =
  battery :: number
  speed :: number
  temperature :: number
  lat :: number
  lon :: number
  soilHumidity :: number
  soilTemp :: number
  light :: number
  airHumidity :: number
  completedArea :: number
  totalArea :: number

text \<open>The literals 1.2, 40.200, 116.400 and 38.2 are not binary64 values; the others
  are.\<close>

definition initial_state :: state where
  "initial_state =
     \<lparr>battery = 85, speed = binary64 (12 / 10), temperature = 28,
      lat = binary64 (402 / 10), lon = binary64 (1164 / 10),
      soilHumidity = 65, soilTemp = 22, light = 8000, airHumidity = 55,
      completedArea = 125 / 10, totalArea = binary64 (382 / 10)\<rparr>"

text \<open>Division of two finite numbers, and multiplication of its result by a finite
  number, as JavaScript computes them: the exact result rounded to binary64;
  \<open>0 / 0\<close> is \<open>NaN\<close>, \<open>x / 0\<close> is an infinity.\<close>

definition js_div :: "number \<Rightarrow> number \<Rightarrow> jsnum" where
  "js_div a b =
     (if b \<noteq> 0 then number_of (binary64 (a / b))
      else if a = 0 then NaN
      else if 0 < a then PosInfinity else NegInfinity)"

fun js_mul :: "jsnum \<Rightarrow> number \<Rightarrow> jsnum" where
  "js_mul (Finite x) k = number_of (binary64 (x * k))"
| "js_mul NaN k = NaN"
| "js_mul PosInfinity k = (if 0 < k then PosInfinity else if k < 0 then NegInfinity else NaN)"
| "js_mul NegInfinity k = (if 0 < k then NegInfinity else if k < 0 then PosInfinity else NaN)"

text \<open>\<open>x.toFixed(1)\<close> writes the multiple of one tenth nearest to the exact value of the
  binary64 number \<open>x\<close>, the larger in magnitude of two equally near ones (\<open>round1\<close>);
  from \<open>10^21\<close> on it writes the number as \<open>String\<close> does. \<open>Number(...)\<close> reads the text
  back as the nearest binary64 value. \<open>NaN\<close> and the infinities print as their names
  and read back as themselves.\<close>

definition round1 :: "real \<Rightarrow> real" where
  "round1 x =
     (if x < 0 then - (of_int \<lfloor>(- x) * 10 + 1 / 2\<rfloor> / 10)
      else of_int \<lfloor>x * 10 + 1 / 2\<rfloor> / 10)"

definition toFixed1_number :: "number \<Rightarrow> number" where
  "toFixed1_number x = (if 10 ^ 21 \<le> \<bar>x\<bar> then x else binary64 (round1 x))"

fun toFixed1 :: "jsnum \<Rightarrow> jsnum" where
  "toFixed1 (Finite x) = Finite (toFixed1_number x)"
| "toFixed1 n = n"

text \<open>The object \<open>{completedArea, totalArea, progress}\<close> that both statistics functions
  return.\<close>

record statistics =
  stat_completedArea :: number
  stat_totalArea :: number
  stat_progress :: jsnum

text \<open>\<open>getStatistics()\<close>: the completed area grows by \<open>random(0, 0.1)\<close>, clamped to
  \<open>[0, totalArea]\<close>; the progress is computed from the stored values with no test of
  \<open>totalArea\<close>. The sum of a stored area and a number below 0.1 stays in the binary64
  range.\<close>

definition getStatistics :: "number \<Rightarrow> state \<Rightarrow> statistics \<times> state" where
  "getStatistics u st =
     (let st' = st\<lparr>completedArea :=
                   clamp (binary64 (completedArea st + random u 0 (binary64 (1 / 10))))
                     0 (totalArea st)\<rparr>;
          progress = toFixed1 (js_mul (js_div (completedArea st') (totalArea st')) 100)
      in (\<lparr>stat_completedArea = toFixed1_number (completedArea st'),
           stat_totalArea = totalArea st',
           stat_progress = progress\<rparr>, st'))"

text \<open>The argument of \<open>updateStatistics\<close>: both fields optional.\<close>

record statsData =
  sd_completedArea :: "number option"
  sd_totalArea :: "number option"

definition updateStatistics :: "statsData \<Rightarrow> state \<Rightarrow> statistics \<times> state" where
  "updateStatistics d st =
     (let st1 = (case sd_completedArea d of None \<Rightarrow> st
                 | Some c \<Rightarrow> st\<lparr>completedArea := max 0 c\<rparr>);
          st2 = (case sd_totalArea d of None \<Rightarrow> st1
                 | Some t \<Rightarrow> st1\<lparr>totalArea := max 0 t\<rparr>);
          progress = (if totalArea st2 > 0
                      then toFixed1 (js_mul (js_div (completedArea st2) (totalArea st2)) 100)
                      else Finite 0)
      in (\<lparr>stat_completedArea = toFixed1_number (completedArea st2),
           stat_totalArea = totalArea st2,
           stat_progress = progress\<rparr>, st2))"

text \<open>\<open>updateRobotStatus(data)\<close> of mockData.js, on the numeric fields of its argument.\<close>

record robotData =
  rd_battery :: "number option"
  rd_speed :: "number option"
  rd_temperature :: "number option"
  rd_lat :: "number option"
  rd_lon :: "number option"

definition robot_status_json :: "state \<Rightarrow> json" where
  "robot_status_json st =
     JObj [(''battery'', JNum (of_int \<lfloor>battery st\<rfloor>)),
           (''speed'', JNum (speed st)),
           (''temperature'', JNum (temperature st)),
           (''coordinates'', JObj [(''lat'', JNum (lat st)), (''lon'', JNum (lon st))])]"

definition updateRobotStatus :: "robotData \<Rightarrow> state \<Rightarrow> json \<times> state" where
  "updateRobotStatus d st =
     (let s1 = (case rd_battery d of None \<Rightarrow> st | Some b \<Rightarrow> st\<lparr>battery := clamp b 0 100\<rparr>);
          s2 = (case rd_speed d of None \<Rightarrow> s1 | Some v \<Rightarrow> s1\<lparr>speed := max 0 v\<rparr>);
          s3 = (case rd_temperature d of None \<Rightarrow> s2 | Some t \<Rightarrow> s2\<lparr>temperature := t\<rparr>);
          s4 = (case rd_lat d of None \<Rightarrow> s3 | Some a \<Rightarrow> s3\<lparr>lat := a\<rparr>);
          s5 = (case rd_lon d of None \<Rightarrow> s4 | Some b \<Rightarrow> s4\<lparr>lon := b\<rparr>)
      in (robot_status_json s5, s5))"

section \<open>Command and action labels\<close>

text \<open>The tables \<open>COMMANDS\<close> and \<open>ACTIONS\<close>, the same in mockData.js and dataSource.js.\<close>

definition COMMANDS :: "(string \<times> string) list" where
  "COMMANDS =
    [(''forward'', [CHR 0xE5, CHR 0x89, CHR 0x8D, CHR 0xE8, CHR 0xBF, CHR 0x9B]),
     (''backward'', [CHR 0xE5, CHR 0x90, CHR 0x8E, CHR 0xE9, CHR 0x80, CHR 0x80]),
     (''left'', [CHR 0xE5, CHR 0xB7, CHR 0xA6, CHR 0xE8, CHR 0xBD, CHR 0xAC]),
     (''right'', [CHR 0xE5, CHR 0x8F, CHR 0xB3, CHR 0xE8, CHR 0xBD, CHR 0xAC]),
     (''stop'', [CHR 0xE5, CHR 0x81, CHR 0x9C, CHR 0xE6, CHR 0xAD, CHR 0xA2])]"

definition ACTIONS :: "(string \<times> string) list" where
  "ACTIONS =
    [(''irrigation'', [CHR 0xE7, CHR 0x81, CHR 0x8C, CHR 0xE6, CHR 0xBA, CHR 0x89]),
     (''fertilize'', [CHR 0xE6, CHR 0x96, CHR 0xBD, CHR 0xE8, CHR 0x82, CHR 0xA5]),
     (''scan'', [CHR 0xE6, CHR 0x89, CHR 0xAB, CHR 0xE6, CHR 0x8F, CHR 0x8F]),
     (''harvest'', [CHR 0xE6, CHR 0x94, CHR 0xB6, CHR 0xE5, CHR 0x89, CHR 0xB2])]"

text \<open>The tables are object literals, so a lookup that finds no own property goes on to
  \<open>Object.prototype\<close>. These are its properties in Node.js, each with the text that a
  template literal makes of its value: the source text of a built-in function, and
  \<open>[object Object]\<close> for the prototype object that \<open>__proto__\<close> returns. All are
  truthy.\<close>

definition native_code :: "string \<Rightarrow> string" where
  "native_code name = ''function '' @ name @ ''() { [native code] }''"

definition Object_prototype :: "(string \<times> string) list" where
  "Object_prototype =
    [(''constructor'', native_code ''Object''),
     (''__defineGetter__'', native_code ''__defineGetter__''),
     (''__defineSetter__'', native_code ''__defineSetter__''),
     (''hasOwnProperty'', native_code ''hasOwnProperty''),
     (''__lookupGetter__'', native_code ''__lookupGetter__''),
     (''__lookupSetter__'', native_code ''__lookupSetter__''),
     (''isPrototypeOf'', native_code ''isPrototypeOf''),
     (''propertyIsEnumerable'', native_code ''propertyIsEnumerable''),
     (''toString'', native_code ''toString''),
     (''valueOf'', native_code ''valueOf''),
     (''__proto__'', ''[object Object]''),
     (''toLocaleString'', native_code ''toLocaleString'')]"

text \<open>\<open>TABLE[code] || code\<close>, as the message shows it: the label of the table, else the
  text of the inherited property of that name, else the raw code.\<close>

definition label_of :: "(string \<times> string) list \<Rightarrow> string \<Rightarrow> string" where
  "label_of table code =
     (case map_of table code of
        Some l \<Rightarrow> l
      | None \<Rightarrow> (case map_of Object_prototype code of Some t \<Rightarrow> t | None \<Rightarrow> code))"

definition msg_command_sent :: string where \<comment> \<open>"command sent: "\<close>
  "msg_command_sent = [CHR 0xE6, CHR 0x8C, CHR 0x87, CHR 0xE4, CHR 0xBB, CHR 0xA4, CHR 0xE5,
     CHR 0xB7, CHR 0xB2, CHR 0xE5, CHR 0x8F, CHR 0x91, CHR 0xE9, CHR 0x80, CHR 0x81, CHR '':'',
     CHR '' '']"

definition msg_command_failed :: string where \<comment> \<open>"sending the command failed: "\<close>
  "msg_command_failed = [CHR 0xE6, CHR 0x8C, CHR 0x87, CHR 0xE4, CHR 0xBB, CHR 0xA4, CHR 0xE5,
     CHR 0x8F, CHR 0x91, CHR 0xE9, CHR 0x80, CHR 0x81, CHR 0xE5, CHR 0xA4, CHR 0xB1, CHR 0xE8,
     CHR 0xB4, CHR 0xA5, CHR '':'', CHR '' '']"

definition msg_action_started :: string where \<comment> \<open>"job started" (a suffix)\<close>
  "msg_action_started = [CHR 0xE4, CHR 0xBD, CHR 0x9C, CHR 0xE4, CHR 0xB8, CHR 0x9A, CHR 0xE5,
     CHR 0xB7, CHR 0xB2, CHR 0xE5, CHR 0x90, CHR 0xAF, CHR 0xE5, CHR 0x8A, CHR 0xA8]"

definition msg_action_failed :: string where \<comment> \<open>"sending the operation failed: "\<close>
  "msg_action_failed = [CHR 0xE6, CHR 0x93, CHR 0x8D, CHR 0xE4, CHR 0xBD, CHR 0x9C, CHR 0xE5,
     CHR 0x8F, CHR 0x91, CHR 0xE9, CHR 0x80, CHR 0x81, CHR 0xE5, CHR 0xA4, CHR 0xB1, CHR 0xE8,
     CHR 0xB4, CHR 0xA5, CHR '':'', CHR '' '']"

text \<open>The acknowledgment \<open>{executed, command | action, message}\<close>; \<open>ack_key\<close> is the
  name of its middle property.\<close>

record ack =
  executed :: bool
  ack_key :: string
  ack_code :: string
  ack_message :: string

text \<open>\<open>handleCommand\<close> and \<open>handleAction\<close> of mockData.js: nothing is sent anywhere.\<close>

definition mock_handleCommand :: "string \<Rightarrow> ack" where
  "mock_handleCommand command =
     \<lparr>executed = True, ack_key = ''command'', ack_code = command,
      ack_message = msg_command_sent @ label_of COMMANDS command\<rparr>"

definition mock_handleAction :: "string \<Rightarrow> ack" where
  "mock_handleAction action =
     \<lparr>executed = True, ack_key = ''action'', ack_code = action,
      ack_message = label_of ACTIONS action @ msg_action_started\<rparr>"

section \<open>Objects: own properties and spread\<close>

text \<open>Decimal digits of an array index, for the property names of arrays and strings.\<close>

fun string_of_nat :: "nat \<Rightarrow> string" where
  "string_of_nat n =
     (if n < 10 then [char_of (48 + n)]
      else string_of_nat (n div 10) @ [char_of (48 + n mod 10)])"

declare string_of_nat.simps [simp del]

text \<open>The own enumerable properties that \<open>{...x}\<close> and \<open>Object.keys(x)\<close> see: the fields
  of an object, the indices of an array or of a string, nothing for \<open>null\<close>, a boolean or
  a number. An object is kept as the list of its properties; the model does not fix the
  order in which JavaScript enumerates them, and every statement below reads objects by
  key. A string has one property for each of its characters, which are bytes here and
  UTF-16 code units in JavaScript.\<close>

fun own_props :: "json \<Rightarrow> obj" where
  "own_props (JObj kvs) = kvs"
| "own_props (JArr xs) = zip (map string_of_nat [0..<length xs]) xs"
| "own_props (JStr s) = zip (map string_of_nat [0..<length s]) (map (\<lambda>c. JStr [c]) s)"
| "own_props JNull = []"
| "own_props (JBool b) = []"
| "own_props (JNum n) = []"

definition keys :: "json \<Rightarrow> string list" where
  "keys x = map fst (own_props x)"

text \<open>Assignment of one property: an existing key keeps its place, a new one goes last.\<close>

fun assoc_set :: "'k \<Rightarrow> 'v \<Rightarrow> ('k \<times> 'v) list \<Rightarrow> ('k \<times> 'v) list" where
  "assoc_set k v [] = [(k, v)]"
| "assoc_set k v ((k', v') # rest) =
     (if k' = k then (k, v) # rest else (k', v') # assoc_set k v rest)"

text \<open>\<open>{...target, ...source}\<close>: every own property of the source is assigned, in turn.\<close>

definition spread :: "obj \<Rightarrow> json \<Rightarrow> obj" where
  "spread target source = foldl (\<lambda>acc (k, v). assoc_set k v acc) target (own_props source)"

text \<open>Truthiness of a JSON value, and of an optional string (\<open>undefined\<close> or a string).\<close>

fun truthy :: "json \<Rightarrow> bool" where
  "truthy JNull = False"
| "truthy (JBool b) = b"
| "truthy (JNum n) = (n \<noteq> 0)"
| "truthy (JStr s) = (s \<noteq> [])"
| "truthy (JArr xs) = True"
| "truthy (JObj kvs) = True"

definition truthy_str :: "string option \<Rightarrow> bool" where
  "truthy_str x = (case x of None \<Rightarrow> False | Some s \<Rightarrow> s \<noteq> [])"

section \<open>backend/data/dataSource.js\<close>

text \<open>\<open>CONFIG.type\<close>; the file as it stands has \<open>'mqtt'\<close>.\<close>

datatype source_type = Serial | Mqtt | Http | Websocket | Database | Unknown string

text \<open>What the module hands to its transport library: a publish on a topic, a line written
  to the serial port, a frame sent on the socket. The payload is the object before
  \<open>JSON.stringify\<close>.\<close>

datatype outbound = Publish string json | Write json | Send json

text \<open>The connection object of the transport library, as far as the module reads it.\<close>

record connection =
  readyState :: int
  sent :: "outbound list"

text \<open>The module state: \<open>CONFIG.type\<close>, the cache, \<open>isConnected\<close> and \<open>connection\<close>
  (\<open>null\<close> is \<open>None\<close>).\<close>

record dataSource =
  config_type :: source_type
  cache_robot :: obj
  cache_sensors :: obj
  cache_tasks :: json
  cache_statistics :: obj
  lastUpdate :: "int option"
  ds_isConnected :: bool
  ds_connection :: "connection option"

definition initial_dataSource :: dataSource where
  "initial_dataSource =
     \<lparr>config_type = Mqtt,
      cache_robot = [(''battery'', JNum 0), (''speed'', JNum 0), (''temperature'', JNum 0),
                     (''coordinates'', JObj [(''lat'', JNum 0), (''lon'', JNum 0)])],
      cache_sensors = [(''soilHumidity'', JNum 0), (''soilTemp'', JNum 0), (''light'', JNum 0),
                       (''airHumidity'', JNum 0)],
      cache_tasks = JArr [],
      cache_statistics = [(''completedArea'', JNum 0), (''totalArea'', JNum 0),
                          (''progress'', JNum 0)],
      lastUpdate = None,
      ds_isConnected = False,
      ds_connection = None\<rparr>"

text \<open>\<open>CONFIG.mqtt.topics\<close>.\<close>

definition topic_status :: string where "topic_status = ''robot/status''"
definition topic_sensors :: string where "topic_sensors = ''robot/sensors''"
definition topic_tasks :: string where "topic_tasks = ''robot/tasks''"
definition topic_statistics :: string where "topic_statistics = ''robot/statistics''"
definition topic_control :: string where "topic_control = ''robot/control''"

text \<open>The handler of \<open>connection.on('message', (topic, message) => ...)\<close> in \<open>initMqtt\<close>.
  \<open>parsed\<close> is the outcome of \<open>JSON.parse(message.toString())\<close>: \<open>None\<close> when it throws
  (the \<open>catch\<close> only logs), the value otherwise. \<open>now\<close> is \<open>Date.now()\<close>.\<close>

definition on_message :: "int \<Rightarrow> string \<Rightarrow> json option \<Rightarrow> dataSource \<Rightarrow> dataSource" where
  "on_message now topic parsed ds =
     (case parsed of
        None \<Rightarrow> ds
      | Some data \<Rightarrow>
          (let ds' =
             (if topic = topic_status then ds\<lparr>cache_robot := spread (cache_robot ds) data\<rparr>
              else if topic = topic_sensors then ds\<lparr>cache_sensors := spread (cache_sensors ds) data\<rparr>
              else if topic = topic_tasks then
                ds\<lparr>cache_tasks := (case data of JArr xs \<Rightarrow> JArr xs | _ \<Rightarrow> JArr [])\<rparr>
              else if topic = topic_statistics then
                ds\<lparr>cache_statistics := spread (cache_statistics ds) data\<rparr>
              else ds)
           in ds'\<lparr>lastUpdate := Some now\<rparr>))"

text \<open>\<open>x.k\<close> for an own property of a value that is not \<open>null\<close>: \<open>undefined\<close> is
  \<open>None\<close>. Of two entries with one key the later counts, as in \<open>spread\<close>.\<close>

definition property :: "json \<Rightarrow> string \<Rightarrow> json option" where
  "property x k = map_of (rev (own_props x)) k"

text \<open>\<open>updateCache(data)\<close>, the merge of the serial and WebSocket transports. A property
  that is missing or falsy is skipped. Reading a property of \<open>null\<close> throws, before
  anything is written.\<close>

definition updateCache :: "int \<Rightarrow> json \<Rightarrow> dataSource \<Rightarrow> js_error + dataSource" where
  "updateCache now data ds =
     (if data = JNull then Inl (TypeError ''Cannot read properties of null'')
      else
        (let d1 = (case property data ''robot'' of
                     None \<Rightarrow> ds
                   | Some v \<Rightarrow>
                       if truthy v then ds\<lparr>cache_robot := spread (cache_robot ds) v\<rparr> else ds);
             d2 = (case property data ''sensors'' of
                     None \<Rightarrow> d1
                   | Some v \<Rightarrow>
                       if truthy v then d1\<lparr>cache_sensors := spread (cache_sensors d1) v\<rparr>
                       else d1);
             d3 = (case property data ''tasks'' of
                     None \<Rightarrow> d2
                   | Some v \<Rightarrow> if truthy v then d2\<lparr>cache_tasks := v\<rparr> else d2);
             d4 = (case property data ''statistics'' of
                     None \<Rightarrow> d3
                   | Some v \<Rightarrow>
                       if truthy v
                       then d3\<lparr>cache_statistics := spread (cache_statistics d3) v\<rparr>
                       else d3)
         in Inr (d4\<lparr>lastUpdate := Some now\<rparr>)))"

text \<open>The handler of a line of the serial port and of a WebSocket message: parse, then
  \<open>updateCache\<close>, both inside one \<open>try\<close> whose \<open>catch\<close> only logs.\<close>

definition on_data :: "int \<Rightarrow> json option \<Rightarrow> dataSource \<Rightarrow> dataSource" where
  "on_data now parsed ds =
     (case parsed of
        None \<Rightarrow> ds
      | Some d \<Rightarrow> (case updateCache now d ds of Inl _ \<Rightarrow> ds | Inr ds' \<Rightarrow> ds'))"

text \<open>A call of a method of the connection object: the message is appended to what the
  library was given.\<close>

definition transmit :: "outbound \<Rightarrow> dataSource \<Rightarrow> dataSource" where
  "transmit m ds =
     ds\<lparr>ds_connection := map_option (\<lambda>c. c\<lparr>sent := sent c @ [m]\<rparr>) (ds_connection ds)\<rparr>"

text \<open>The three guarded sends that \<open>handleCommand\<close> and \<open>handleAction\<close> share, with the
  payload each transport gets. Nothing is sent when \<open>connection\<close> is \<open>null\<close>, nor on a
  socket whose \<open>readyState\<close> is not 1.\<close>

definition send_guarded :: "string \<Rightarrow> string \<Rightarrow> string \<Rightarrow> dataSource \<Rightarrow> dataSource" where
  "send_guarded kind key code ds =
     (let d1 = (if config_type ds = Mqtt \<and> ds_connection ds \<noteq> None
                then transmit (Publish topic_control
                                 (JObj [(''type'', JStr kind), (key, JStr code)])) ds
                else ds);
          d2 = (if config_type d1 = Serial \<and> ds_connection d1 \<noteq> None
                then transmit (Write (JObj [(key, JStr code)])) d1
                else d1);
          d3 = (if config_type d2 = Websocket \<and> ds_connection d2 \<noteq> None
                   \<and> map_option readyState (ds_connection d2) = Some 1
                then transmit (Send (JObj [(''type'', JStr kind), (key, JStr code)])) d2
                else d2)
      in d3)"

text \<open>\<open>handleCommand(command)\<close>. \<open>http\<close> is the outcome of the \<open>httpRequest\<close> that only
  the HTTP transport makes: \<open>Inl msg\<close> when it throws an error with that message. The
  only \<open>executed: false\<close> is in the \<open>catch\<close> of that request; every other path ends in
  \<open>executed: true\<close>.\<close>

definition handleCommand :: "string + unit \<Rightarrow> string \<Rightarrow> dataSource \<Rightarrow> ack \<times> dataSource" where
  "handleCommand http command ds =
     (let commandName = label_of COMMANDS command in
      case (if config_type ds = Http then http else Inr ()) of
        Inl msg \<Rightarrow>
          (\<lparr>executed = False, ack_key = ''command'', ack_code = command,
            ack_message = msg_command_failed @ msg\<rparr>, ds)
      | Inr _ \<Rightarrow>
          (\<lparr>executed = True, ack_key = ''command'', ack_code = command,
            ack_message = msg_command_sent @ commandName\<rparr>,
           send_guarded ''command'' ''command'' command ds))"

definition handleAction :: "string + unit \<Rightarrow> string \<Rightarrow> dataSource \<Rightarrow> ack \<times> dataSource" where
  "handleAction http action ds =
     (let actionName = label_of ACTIONS action in
      case (if config_type ds = Http then http else Inr ()) of
        Inl msg \<Rightarrow>
          (\<lparr>executed = False, ack_key = ''action'', ack_code = action,
            ack_message = msg_action_failed @ msg\<rparr>, ds)
      | Inr _ \<Rightarrow>
          (\<lparr>executed = True, ack_key = ''action'', ack_code = action,
            ack_message = actionName @ msg_action_started\<rparr>,
           send_guarded ''action'' ''action'' action ds))"

text \<open>The names that \<open>module.exports\<close> of dataSource.js and of mockData.js list.\<close>

datatype data_module = MockData | DataSource

fun module_exports :: "data_module \<Rightarrow> string list" where
  "module_exports DataSource =
     [''getRobotStatus'', ''getSensorData'', ''getTasks'', ''getStatistics'',
      ''handleCommand'', ''handleAction'', ''init'', ''close'', ''getConnectionStatus'',
      ''CONFIG'']"
| "module_exports MockData =
     [''getRobotStatus'', ''getSensorData'', ''getTasks'', ''getStatistics'',
      ''handleCommand'', ''handleAction'', ''updateSensorData'', ''updateRobotStatus'',
      ''updateStatistics'', ''createTask'', ''updateTask'', ''deleteTask'']"

section \<open>backend/controllers/robotController.js\<close>

text \<open>The identifiers of the controller module. As the file stands, the \<open>require\<close> of
  mockData is commented out, so \<open>mockData\<close> is not declared, and \<open>data\<close> is
  \<open>dataSource\<close>. The header of the file describes the other wiring, with \<open>mockData\<close>
  required and \<open>data = mockData\<close>.\<close>

record controller =
  mockData_declared :: bool
  data :: data_module

definition robotController :: controller where
  "robotController = \<lparr>mockData_declared = False, data = DataSource\<rparr>"

definition mock_wired_controller :: controller where
  "mock_wired_controller = \<lparr>mockData_declared = True, data = MockData\<rparr>"

text \<open>What the server process holds: the state and the task list of mockData.js, and the
  state of dataSource.js.\<close>

record server =
  mock_state :: state
  mock_tasks :: "task list"
  live :: dataSource

definition initial_server :: server where
  "initial_server =
     \<lparr>mock_state = initial_state, mock_tasks = initial_tasks, live = initial_dataSource\<rparr>"

record response =
  status :: nat
  body :: obj

text \<open>\<open>sendSuccess(res, data, extra)\<close> and \<open>sendError(res, message, statusCode)\<close>.\<close>

definition sendSuccess :: "int \<Rightarrow> json \<Rightarrow> obj \<Rightarrow> response" where
  "sendSuccess now d extra =
     \<lparr>status = 200,
      body = spread [(''success'', JBool True), (''data'', d),
                     (''timestamp'', JNum (of_int now))] (JObj extra)\<rparr>"

definition sendError :: "string \<Rightarrow> nat \<Rightarrow> response" where
  "sendError message statusCode =
     \<lparr>status = statusCode, body = [(''success'', JBool False), (''message'', JStr message)]\<rparr>"

definition msg_need_status_field :: string where \<comment> \<open>"give at least one status field"\<close>
  "msg_need_status_field = [CHR 0xE8, CHR 0xAF, CHR 0xB7, CHR 0xE8, CHR 0x87, CHR 0xB3, CHR 0xE5,
     CHR 0xB0, CHR 0x91, CHR 0xE6, CHR 0x8F, CHR 0x90, CHR 0xE4, CHR 0xBE, CHR 0x9B, CHR 0xE4,
     CHR 0xB8, CHR 0x80, CHR 0xE4, CHR 0xB8, CHR 0xAA, CHR 0xE7, CHR 0x8A, CHR 0xB6, CHR 0xE6,
     CHR 0x80, CHR 0x81, CHR 0xE5, CHR 0xAD, CHR 0x97, CHR 0xE6, CHR 0xAE, CHR 0xB5]"

definition msg_status_updated :: string where \<comment> \<open>"robot status updated"\<close>
  "msg_status_updated = [CHR 0xE6, CHR 0x9C, CHR 0xBA, CHR 0xE5, CHR 0x99, CHR 0xA8, CHR 0xE4,
     CHR 0xBA, CHR 0xBA, CHR 0xE7, CHR 0x8A, CHR 0xB6, CHR 0xE6, CHR 0x80, CHR 0x81, CHR 0xE6,
     CHR 0x9B, CHR 0xB4, CHR 0xE6, CHR 0x96, CHR 0xB0, CHR 0xE6, CHR 0x88, CHR 0x90, CHR 0xE5,
     CHR 0x8A, CHR 0x9F]"

definition msg_need_command :: string where \<comment> \<open>"command or action parameter missing"\<close>
  "msg_need_command = [CHR 0xE7, CHR 0xBC, CHR 0xBA, CHR 0xE5, CHR 0xB0, CHR 0x91, CHR '' '',
     CHR ''c'', CHR ''o'', CHR ''m'', CHR ''m'', CHR ''a'', CHR ''n'', CHR ''d'', CHR '' '',
     CHR 0xE6, CHR 0x88, CHR 0x96, CHR '' '', CHR ''a'', CHR ''c'', CHR ''t'', CHR ''i'',
     CHR ''o'', CHR ''n'', CHR '' '', CHR 0xE5, CHR 0x8F, CHR 0x82, CHR 0xE6, CHR 0x95, CHR 0xB0]"

definition msg_need_name :: string where \<comment> \<open>"required field missing: name"\<close>
  "msg_need_name = [CHR 0xE7, CHR 0xBC, CHR 0xBA, CHR 0xE5, CHR 0xB0, CHR 0x91, CHR 0xE5, CHR 0xBF,
     CHR 0x85, CHR 0xE5, CHR 0xA1, CHR 0xAB, CHR 0xE5, CHR 0xAD, CHR 0x97, CHR 0xE6, CHR 0xAE,
     CHR 0xB5, CHR '':'', CHR '' '', CHR ''n'', CHR ''a'', CHR ''m'', CHR ''e'']"

definition msg_task_created :: string where \<comment> \<open>"task created"\<close>
  "msg_task_created = [CHR 0xE4, CHR 0xBB, CHR 0xBB, CHR 0xE5, CHR 0x8A, CHR 0xA1, CHR 0xE5,
     CHR 0x88, CHR 0x9B, CHR 0xE5, CHR 0xBB, CHR 0xBA, CHR 0xE6, CHR 0x88, CHR 0x90, CHR 0xE5,
     CHR 0x8A, CHR 0x9F]"

text \<open>The fields that \<open>updateRobotStatus\<close> and \<open>updateStatistics\<close> of mockData.js read
  from a request body: \<open>None\<close> for a field that the body does not have, the number for
  a field that holds one. A field that holds a value of another type is present for
  the test \<^verbatim>\<open>!== undefined\<close>, and the code converts it (\<open>Math.max(0, null)\<close> is 0) or
  stores it as it is; these conversions are not modelled, and the model says nothing of
  such a body: the result is left unspecified there.\<close>

definition num_property :: "json \<Rightarrow> string \<Rightarrow> number option" where
  "num_property x k =
     (case property x k of
        None \<Rightarrow> None
      | Some (JNum n) \<Rightarrow> Some n
      | Some _ \<Rightarrow> undefined)"

definition robotData_of :: "json \<Rightarrow> robotData" where
  "robotData_of x =
     \<lparr>rd_battery = num_property x ''battery'', rd_speed = num_property x ''speed'',
      rd_temperature = num_property x ''temperature'', rd_lat = num_property x ''lat'',
      rd_lon = num_property x ''lon''\<rparr>"

text \<open>\<open>data.updateRobotStatus(statusData)\<close>, once the property is known to exist.\<close>

fun call_updateRobotStatus :: "data_module \<Rightarrow> json \<Rightarrow> server \<Rightarrow> (js_error + json) \<times> server" where
  "call_updateRobotStatus MockData statusData srv =
     (let (updated, st') = updateRobotStatus (robotData_of statusData) (mock_state srv)
      in (Inr updated, srv\<lparr>mock_state := st'\<rparr>))"
| "call_updateRobotStatus DataSource statusData srv =
     (Inl (TypeError ''data.updateRobotStatus is not a function''), srv)"

text \<open>\<open>exports.updateStatus\<close>:
  \<^verbatim>\<open>if (!statusData || Object.keys(statusData).length === 0) return sendError(..., 400);\<close>
  \<^verbatim>\<open>const updatedData = data.updateRobotStatus ? data.updateRobotStatus(statusData) : statusData;\<close>
  \<^verbatim>\<open>sendSuccess(res, updatedData, { message: ... });\<close>\<close>

definition exports_updateStatus ::
  "controller \<Rightarrow> int \<Rightarrow> json \<Rightarrow> server \<Rightarrow> (js_error + response) \<times> server" where
  "exports_updateStatus c now statusData srv =
     (if \<not> truthy statusData \<or> length (keys statusData) = 0
      then (Inr (sendError msg_need_status_field 400), srv)
      else if ''updateRobotStatus'' \<in> set (module_exports (data c))
      then (case call_updateRobotStatus (data c) statusData srv of
              (Inl e, srv') \<Rightarrow> (Inl e, srv')
            | (Inr updatedData, srv') \<Rightarrow>
                (Inr (sendSuccess now updatedData [(''message'', JStr msg_status_updated)]), srv'))
      else (Inr (sendSuccess now statusData [(''message'', JStr msg_status_updated)]), srv))"

text \<open>The body of POST /api/robot/control, on its two string fields.\<close>

record controlBody =
  cb_command :: "string option"
  cb_action :: "string option"

definition str_of :: "string option \<Rightarrow> string" where
  "str_of x = (case x of None \<Rightarrow> [] | Some s \<Rightarrow> s)"

definition ack_obj :: "ack \<Rightarrow> obj" where
  "ack_obj a =
     [(''executed'', JBool (executed a)), (ack_key a, JStr (ack_code a)),
      (''message'', JStr (ack_message a))]"

fun data_handleCommand :: "data_module \<Rightarrow> string + unit \<Rightarrow> string \<Rightarrow> server \<Rightarrow> ack \<times> server" where
  "data_handleCommand MockData http command srv = (mock_handleCommand command, srv)"
| "data_handleCommand DataSource http command srv =
     (let (a, ds') = handleCommand http command (live srv) in (a, srv\<lparr>live := ds'\<rparr>))"

fun data_handleAction :: "data_module \<Rightarrow> string + unit \<Rightarrow> string \<Rightarrow> server \<Rightarrow> ack \<times> server" where
  "data_handleAction MockData http action srv = (mock_handleAction action, srv)"
| "data_handleAction DataSource http action srv =
     (let (a, ds') = handleAction http action (live srv) in (a, srv\<lparr>live := ds'\<rparr>))"

text \<open>\<open>exports.sendCommand\<close>:
  \<^verbatim>\<open>if (!command && !action) return sendError(..., 400);\<close>
  \<^verbatim>\<open>const result = command ? await data.handleCommand(command) : await data.handleAction(action);\<close>
  \<^verbatim>\<open>sendSuccess(res, null, result);\<close>\<close>

definition exports_sendCommand ::
  "controller \<Rightarrow> string + unit \<Rightarrow> int \<Rightarrow> controlBody \<Rightarrow> server \<Rightarrow> (js_error + response) \<times> server" where
  "exports_sendCommand c http now b srv =
     (if \<not> truthy_str (cb_command b) \<and> \<not> truthy_str (cb_action b)
      then (Inr (sendError msg_need_command 400), srv)
      else
        (let (result, srv') =
               (if truthy_str (cb_command b)
                then data_handleCommand (data c) http (str_of (cb_command b)) srv
                else data_handleAction (data c) http (str_of (cb_action b)) srv)
         in (Inr (sendSuccess now JNull (ack_obj result)), srv')))"

definition task_json :: "task \<Rightarrow> json" where
  "task_json t =
     JObj [(''id'', JNum (of_int (task_id t))), (''name'', JStr (task_name t)),
           (''status'', JStr (task_status t)), (''progress'', JNum (task_progress t))]"

text \<open>\<open>exports.createTask\<close> and \<open>exports.getTasks\<close> read the identifier \<open>mockData\<close>;
  reading an identifier that is not declared throws a ReferenceError.\<close>

definition exports_createTask ::
  "controller \<Rightarrow> int \<Rightarrow> taskData \<Rightarrow> server \<Rightarrow> (js_error + response) \<times> server" where
  "exports_createTask c now b srv =
     (if \<not> truthy_str (td_name b)
      then (Inr (sendError msg_need_name 400), srv)
      else if \<not> mockData_declared c
      then (Inl (ReferenceError ''mockData is not defined''), srv)
      else
        (let (newTask, tasks') =
               createTask (str_of (td_name b)) (td_status b) (td_progress b) (mock_tasks srv)
         in (Inr (sendSuccess now (task_json newTask) [(''message'', JStr msg_task_created)]),
             srv\<lparr>mock_tasks := tasks'\<rparr>)))"

definition exports_getTasks ::
  "controller \<Rightarrow> int \<Rightarrow> server \<Rightarrow> (js_error + response) \<times> server" where
  "exports_getTasks c now srv =
     (if \<not> mockData_declared c
      then (Inl (ReferenceError ''mockData is not defined''), srv)
      else (Inr (sendSuccess now (JArr (map task_json (getTasks (mock_tasks srv)))) []), srv))"

definition msg_need_stats_field :: string where \<comment> \<open>"give at least one statistics field"\<close>
  "msg_need_stats_field = [CHR 0xE8, CHR 0xAF, CHR 0xB7, CHR 0xE8, CHR 0x87, CHR 0xB3, CHR 0xE5,
     CHR 0xB0, CHR 0x91, CHR 0xE6, CHR 0x8F, CHR 0x90, CHR 0xE4, CHR 0xBE, CHR 0x9B, CHR 0xE4,
     CHR 0xB8, CHR 0x80, CHR 0xE4, CHR 0xB8, CHR 0xAA, CHR 0xE7, CHR 0xBB, CHR 0x9F, CHR 0xE8,
     CHR 0xAE, CHR 0xA1, CHR 0xE5, CHR 0xAD, CHR 0x97, CHR 0xE6, CHR 0xAE, CHR 0xB5]"

definition msg_stats_updated :: string where \<comment> \<open>"statistics updated"\<close>
  "msg_stats_updated = [CHR 0xE7, CHR 0xBB, CHR 0x9F, CHR 0xE8, CHR 0xAE, CHR 0xA1, CHR 0xE6,
     CHR 0x95, CHR 0xB0, CHR 0xE6, CHR 0x8D, CHR 0xAE, CHR 0xE6, CHR 0x9B, CHR 0xB4, CHR 0xE6,
     CHR 0x96, CHR 0xB0, CHR 0xE6, CHR 0x88, CHR 0x90, CHR 0xE5, CHR 0x8A, CHR 0x9F]"

text \<open>The statistics as \<open>res.json\<close> writes them: \<open>NaN\<close> and the infinities become
  \<open>null\<close>.\<close>

definition stats_json :: "statistics \<Rightarrow> json" where
  "stats_json r =
     JObj [(''completedArea'', JNum (stat_completedArea r)),
           (''totalArea'', JNum (stat_totalArea r)),
           (''progress'', (case stat_progress r of Finite p \<Rightarrow> JNum p | _ \<Rightarrow> JNull))]"

definition statsData_of :: "json \<Rightarrow> statsData" where
  "statsData_of x =
     \<lparr>sd_completedArea = num_property x ''completedArea'',
      sd_totalArea = num_property x ''totalArea''\<rparr>"

text \<open>\<open>exports.getStatistics\<close> and \<open>exports.updateStatistics\<close>; both read the identifier
  \<open>mockData\<close>. \<open>u\<close> is the draw of \<open>Math.random()\<close> in the read.\<close>

definition exports_getStatistics ::
  "controller \<Rightarrow> number \<Rightarrow> int \<Rightarrow> server \<Rightarrow> (js_error + response) \<times> server" where
  "exports_getStatistics c u now srv =
     (if \<not> mockData_declared c
      then (Inl (ReferenceError ''mockData is not defined''), srv)
      else
        (let (r, st') = getStatistics u (mock_state srv)
         in (Inr (sendSuccess now (stats_json r) []), srv\<lparr>mock_state := st'\<rparr>)))"

definition exports_updateStatistics ::
  "controller \<Rightarrow> int \<Rightarrow> json \<Rightarrow> server \<Rightarrow> (js_error + response) \<times> server" where
  "exports_updateStatistics c now statsBody srv =
     (if \<not> truthy statsBody \<or> length (keys statsBody) = 0
      then (Inr (sendError msg_need_stats_field 400), srv)
      else if \<not> mockData_declared c
      then (Inl (ReferenceError ''mockData is not defined''), srv)
      else
        (let (r, st') = updateStatistics (statsData_of statsBody) (mock_state srv)
         in (Inr (sendSuccess now (stats_json r) [(''message'', JStr msg_stats_updated)]),
             srv\<lparr>mock_state := st'\<rparr>)))"

text \<open>\<open>asyncHandler\<close> passes a thrown error to \<open>next\<close>, and the error middleware of
  server.js answers 500 with \<open>success: false\<close>; the message is the error's own unless
  \<open>NODE_ENV\<close> is \<open>production\<close>.\<close>

definition asyncHandler :: "bool \<Rightarrow> (js_error + response) \<times> server \<Rightarrow> response \<times> server" where
  "asyncHandler production r =
     (case r of
        (Inr resp, srv) \<Rightarrow> (resp, srv)
      | (Inl err, srv) \<Rightarrow>
          (\<lparr>status = 500,
            body = [(''success'', JBool False),
                    (''message'', JStr (if production then ''Internal Server Error''
                                        else error_message err))]\<rparr>, srv))"

text \<open>\<open>app.use(express.json())\<close> of server.js runs before the routes. In its default
  strict mode the parser accepts a JSON text only if it is an object or an array; for
  any other JSON value it throws a SyntaxError, whose message depends on the text and
  on the version of the engine (\<open>message\<close> below), and the error goes to the error
  middleware without reaching a route.\<close>

fun strict_json :: "json \<Rightarrow> bool" where
  "strict_json (JObj kvs) = True"
| "strict_json (JArr xs) = True"
| "strict_json (JStr s) = False"
| "strict_json (JNum n) = False"
| "strict_json (JBool b) = False"
| "strict_json JNull = False"

definition express_json :: "string \<Rightarrow> json \<Rightarrow> js_error + json" where
  "express_json message b = (if strict_json b then Inr b else Inl (SyntaxError message))"

text \<open>The error middleware of server.js answers 500 with \<open>success: false\<close> and
  \<^verbatim>\<open>message: process.env.NODE_ENV === 'production' ? 'Internal Server Error' : err.message\<close>\<close>

definition errorHandler :: "bool \<Rightarrow> js_error \<Rightarrow> response" where
  "errorHandler production err =
     \<lparr>status = 500,
      body = [(''success'', JBool False),
              (''message'', JStr (if production then ''Internal Server Error''
                                  else error_message err))]\<rparr>"

text \<open>The routes of routes/robot.js that the statements below use, each with the body of
  the request (a JSON text of content type application/json, within the size limit of
  the parser). The bodies of POST /api/tasks and POST /api/robot/control are objects,
  read on the fields that their handlers use. POST /api/robot/status carries any JSON
  value, together with the message of the error for the case that the parser refuses
  it.\<close>

datatype request =
    POST_tasks taskData
  | GET_tasks
  | POST_robot_status json string
  | POST_robot_control controlBody

fun route ::
  "controller \<Rightarrow> bool \<Rightarrow> string + unit \<Rightarrow> int \<Rightarrow> request \<Rightarrow> server \<Rightarrow> response \<times> server" where
  "route c production http now (POST_tasks b) srv =
     asyncHandler production (exports_createTask c now b srv)"
| "route c production http now GET_tasks srv =
     asyncHandler production (exports_getTasks c now srv)"
| "route c production http now (POST_robot_status b message) srv =
     (case express_json message b of
        Inl err \<Rightarrow> (errorHandler production err, srv)
      | Inr statusData \<Rightarrow> asyncHandler production (exports_updateStatus c now statusData srv))"
| "route c production http now (POST_robot_control b) srv =
     asyncHandler production (exports_sendCommand c http now b srv)"

section \<open>frontend/js/alert.js\<close>

text \<open>A rule of \<open>AlertService.rules\<close>. The snapshots that \<open>check\<close> compares are read on
  their numeric fields.\<close>

record rule =
  rule_enabled :: bool
  rule_threshold :: number
  rule_message :: string
  rule_level :: string
  rule_field :: string
  rule_condition :: string

definition msg_lowBattery :: string where \<comment> \<open>"battery too low"\<close>
  "msg_lowBattery = [CHR 0xE7, CHR 0x94, CHR 0xB5, CHR 0xE9, CHR 0x87, CHR 0x8F, CHR 0xE8,
     CHR 0xBF, CHR 0x87, CHR 0xE4, CHR 0xBD, CHR 0x8E]"

definition msg_highTemperature :: string where \<comment> \<open>"temperature too high"\<close>
  "msg_highTemperature = [CHR 0xE6, CHR 0xB8, CHR 0xA9, CHR 0xE5, CHR 0xBA, CHR 0xA6, CHR 0xE8,
     CHR 0xBF, CHR 0x87, CHR 0xE9, CHR 0xAB, CHR 0x98]"

definition msg_lowSoilHumidity :: string where \<comment> \<open>"soil humidity too low"\<close>
  "msg_lowSoilHumidity = [CHR 0xE5, CHR 0x9C, CHR 0x9F, CHR 0xE5, CHR 0xA3, CHR 0xA4, CHR 0xE6,
     CHR 0xB9, CHR 0xBF, CHR 0xE5, CHR 0xBA, CHR 0xA6, CHR 0xE8, CHR 0xBF, CHR 0x87, CHR 0xE4,
     CHR 0xBD, CHR 0x8E]"

definition msg_highSoilHumidity :: string where \<comment> \<open>"soil humidity too high"\<close>
  "msg_highSoilHumidity = [CHR 0xE5, CHR 0x9C, CHR 0x9F, CHR 0xE5, CHR 0xA3, CHR 0xA4, CHR 0xE6,
     CHR 0xB9, CHR 0xBF, CHR 0xE5, CHR 0xBA, CHR 0xA6, CHR 0xE8, CHR 0xBF, CHR 0x87, CHR 0xE9,
     CHR 0xAB, CHR 0x98]"

definition msg_lowLight :: string where \<comment> \<open>"not enough light"\<close>
  "msg_lowLight = [CHR 0xE5, CHR 0x85, CHR 0x89, CHR 0xE7, CHR 0x85, CHR 0xA7, CHR 0xE4, CHR 0xB8,
     CHR 0x8D, CHR 0xE8, CHR 0xB6, CHR 0xB3]"

definition msg_disconnected :: string where \<comment> \<open>"connection to the server lost"\<close>
  "msg_disconnected = [CHR 0xE4, CHR 0xB8, CHR 0x8E, CHR 0xE6, CHR 0x9C, CHR 0x8D, CHR 0xE5,
     CHR 0x8A, CHR 0xA1, CHR 0xE5, CHR 0x99, CHR 0xA8, CHR 0xE6, CHR 0x96, CHR 0xAD, CHR 0xE5,
     CHR 0xBC, CHR 0x80, CHR 0xE8, CHR 0xBF, CHR 0x9E, CHR 0xE6, CHR 0x8E, CHR 0xA5]"

definition txt_offline :: string where \<comment> \<open>"offline"\<close>
  "txt_offline = [CHR 0xE7, CHR 0xA6, CHR 0xBB, CHR 0xE7, CHR 0xBA, CHR 0xBF]"

definition unit_celsius :: string where \<comment> \<open>degree sign, C\<close>
  "unit_celsius = [CHR 0xC2, CHR 0xB0, CHR ''C'']"

text \<open>\<open>rules\<close>, in the order of the object literal, which is the order in which
  \<open>Object.entries\<close> visits them.\<close>

definition rules :: "(string \<times> rule) list" where
  "rules =
    [(''lowBattery'',
       \<lparr>rule_enabled = True, rule_threshold = 20, rule_message = msg_lowBattery,
        rule_level = ''critical'', rule_field = ''battery'', rule_condition = ''below''\<rparr>),
     (''highTemperature'',
       \<lparr>rule_enabled = True, rule_threshold = 40, rule_message = msg_highTemperature,
        rule_level = ''warning'', rule_field = ''temperature'', rule_condition = ''above''\<rparr>),
     (''lowSoilHumidity'',
       \<lparr>rule_enabled = True, rule_threshold = 30, rule_message = msg_lowSoilHumidity,
        rule_level = ''warning'', rule_field = ''soilHumidity'', rule_condition = ''below''\<rparr>),
     (''highSoilHumidity'',
       \<lparr>rule_enabled = True, rule_threshold = 90, rule_message = msg_highSoilHumidity,
        rule_level = ''info'', rule_field = ''soilHumidity'', rule_condition = ''above''\<rparr>),
     (''lowLight'',
       \<lparr>rule_enabled = True, rule_threshold = 1000, rule_message = msg_lowLight,
        rule_level = ''info'', rule_field = ''light'', rule_condition = ''below''\<rparr>)]"

text \<open>\<open>config.maxHistory\<close> and \<open>config.alertCooldown\<close> (milliseconds).\<close>

definition maxHistory :: nat where "maxHistory = 50"
definition alertCooldown :: int where "alertCooldown = 30000"

text \<open>The value an alert carries: a reading, or the text that \<open>checkConnection\<close> passes.\<close>

datatype reading = Reading number | Text string

text \<open>An alert \<open>{id, message, level, time, value}\<close>. The message
  \<^verbatim>\<open>`${rule.message}: ${value}${this.getUnit(rule.field)}`\<close> is kept as its three
  parts: the rule's message, the value and the unit.\<close>

record alert =
  alert_id :: string
  alert_message :: "string \<times> reading \<times> string"
  alert_level :: string
  alert_time :: int
  alert_value :: reading

text \<open>The service: the map \<open>activeAlerts\<close> in insertion order, the history (newest first),
  the notifications appended to the element \<open>alertContainer\<close> (\<open>None\<close> when the page has
  no such element), and the number of calls of \<open>playAlertSound\<close>. The removal of a
  notification by its own timer is not modelled.\<close>

record alertService =
  activeAlerts :: "(string \<times> alert) list"
  alertHistory :: "alert list"
  alertContainer :: "alert list option"
  soundEnabled :: bool
  sounds :: nat

definition initial_alertService :: alertService where
  "initial_alertService =
     \<lparr>activeAlerts = [], alertHistory = [], alertContainer = None, soundEnabled = True,
      sounds = 0\<rparr>"

text \<open>\<open>init()\<close>: \<open>createAlertContainer\<close> adds the element unless the page has it.\<close>

definition init :: "alertService \<Rightarrow> alertService" where
  "init s = (case alertContainer s of None \<Rightarrow> s\<lparr>alertContainer := Some []\<rparr> | Some _ \<Rightarrow> s)"

text \<open>\<open>getUnit(field)\<close> is \<^verbatim>\<open>units[field] || ''\<close> on an object literal; as in \<open>label_of\<close>, a
  name that the literal lacks is looked up in \<open>Object.prototype\<close> (the texts are those of
  the V8 engine). The service calls it with the fields of its rules and with
  \<open>connection\<close>.\<close>

definition getUnit :: "string \<Rightarrow> string" where
  "getUnit f =
     (case map_of [(''battery'', ''%''), (''temperature'', unit_celsius),
                   (''soilHumidity'', ''%''), (''soilTemp'', unit_celsius),
                   (''light'', '' Lux''), (''airHumidity'', ''%'')] f of
        Some u \<Rightarrow> u
      | None \<Rightarrow> (case map_of Object_prototype f of Some t \<Rightarrow> t | None \<Rightarrow> []))"

text \<open>\<open>addToHistory\<close>: \<open>unshift\<close>, then one \<open>pop\<close> when the length exceeds the maximum.\<close>

definition addToHistory :: "alert \<Rightarrow> alertService \<Rightarrow> alertService" where
  "addToHistory a s =
     (let h = a # alertHistory s
      in s\<lparr>alertHistory := (if length h > maxHistory then butlast h else h)\<rparr>)"

text \<open>\<open>showNotification\<close>: nothing when the container is missing.\<close>

definition showNotification :: "alert \<Rightarrow> alertService \<Rightarrow> alertService" where
  "showNotification a s = s\<lparr>alertContainer := map_option (\<lambda>ns. ns @ [a]) (alertContainer s)\<rparr>"

definition playAlertSound :: "alertService \<Rightarrow> alertService" where
  "playAlertSound s = s\<lparr>sounds := sounds s + 1\<rparr>"

text \<open>\<open>trigger(ruleId, rule, value)\<close> reads \<open>message\<close>, \<open>level\<close> and \<open>field\<close> of the rule.
  \<open>now\<close> is \<open>Date.now()\<close>. An alert of the same rule younger than the cooldown makes it
  return at once.\<close>

definition trigger ::
  "int \<Rightarrow> string \<Rightarrow> string \<Rightarrow> string \<Rightarrow> string \<Rightarrow> reading \<Rightarrow> alertService \<Rightarrow> alertService" where
  "trigger now ruleId message level fld v s =
     (let existing = map_of (activeAlerts s) ruleId in
      if (case existing of None \<Rightarrow> False | Some e \<Rightarrow> now - alert_time e < alertCooldown)
      then s
      else
        (let a = \<lparr>alert_id = ruleId, alert_message = (message, v, getUnit fld),
                  alert_level = level, alert_time = now, alert_value = v\<rparr>;
             s1 = s\<lparr>activeAlerts := assoc_set ruleId a (activeAlerts s)\<rparr>;
             s2 = addToHistory a s1;
             s3 = showNotification a s2
         in if soundEnabled s3 \<and> level = ''critical'' then playAlertSound s3 else s3))"

text \<open>\<open>resolve(ruleId)\<close>: the entry is deleted from the map.\<close>

definition resolve :: "string \<Rightarrow> alertService \<Rightarrow> alertService" where
  "resolve ruleId s =
     (if ruleId \<in> fst ` set (activeAlerts s)
      then s\<lparr>activeAlerts := filter (\<lambda>(k, a). k \<noteq> ruleId) (activeAlerts s)\<rparr>
      else s)"

text \<open>The body of the \<open>forEach\<close> of \<open>check\<close> for one rule, on the merged snapshot.\<close>

definition check_rule ::
  "int \<Rightarrow> (string \<times> number) list \<Rightarrow> alertService \<Rightarrow> string \<times> rule \<Rightarrow> alertService" where
  "check_rule now allData s entry =
     (let ruleId = fst entry; r = snd entry in
      if \<not> rule_enabled r then s
      else case map_of allData (rule_field r) of
        None \<Rightarrow> s
      | Some v \<Rightarrow>
          (let triggered =
                 (if rule_condition r = ''below'' \<and> v < rule_threshold r then True
                  else if rule_condition r = ''above'' \<and> v > rule_threshold r then True
                  else False)
           in if triggered
              then trigger now ruleId (rule_message r) (rule_level r) (rule_field r) (Reading v) s
              else resolve ruleId s))"

text \<open>\<open>check(robotData, sensorData)\<close>: \<open>allData = {...robotData, ...sensorData}\<close>, then
  every rule in turn.\<close>

definition merge_data :: "(string \<times> number) list \<Rightarrow> (string \<times> number) list \<Rightarrow> (string \<times> number) list" where
  "merge_data robotData sensorData = foldl (\<lambda>acc (k, v). assoc_set k v acc) robotData sensorData"

definition check ::
  "int \<Rightarrow> (string \<times> number) list \<Rightarrow> (string \<times> number) list \<Rightarrow> alertService \<Rightarrow> alertService" where
  "check now robotData sensorData s =
     foldl (check_rule now (merge_data robotData sensorData)) s rules"

text \<open>\<open>checkConnection(connected)\<close>.\<close>

definition checkConnection :: "int \<Rightarrow> bool \<Rightarrow> alertService \<Rightarrow> alertService" where
  "checkConnection now online s =
     (if \<not> online
      then trigger now ''disconnected'' msg_disconnected ''critical'' ''connection''
             (Text txt_offline) s
      else resolve ''disconnected'' s)"

definition getActiveCount :: "alertService \<Rightarrow> nat" where
  "getActiveCount s = length (activeAlerts s)"

section \<open>frontend/js/app.js: the refresh of the robot status\<close>

definition msg_connected :: string where \<comment> \<open>"connected to the backend service"\<close>
  "msg_connected = [CHR 0xE5, CHR 0xB7, CHR 0xB2, CHR 0xE8, CHR 0xBF, CHR 0x9E, CHR 0xE6, CHR 0x8E,
     CHR 0xA5, CHR 0xE5, CHR 0x88, CHR 0xB0, CHR 0xE5, CHR 0x90, CHR 0x8E, CHR 0xE7, CHR 0xAB,
     CHR 0xAF, CHR 0xE6, CHR 0x9C, CHR 0x8D, CHR 0xE5, CHR 0x8A, CHR 0xA1]"

definition msg_backend_lost :: string where \<comment> \<open>"backend connection lost"\<close>
  "msg_backend_lost = [CHR 0xE5, CHR 0x90, CHR 0x8E, CHR 0xE7, CHR 0xAB, CHR 0xAF, CHR 0xE8,
     CHR 0xBF, CHR 0x9E, CHR 0xE6, CHR 0x8E, CHR 0xA5, CHR 0xE6, CHR 0x96, CHR 0xAD, CHR 0xE5,
     CHR 0xBC, CHR 0x80]"

text \<open>An item of the log list: the time, the message and the type (\<open>info\<close> or \<open>error\<close>).\<close>

record logItem =
  log_time :: int
  log_message :: string
  log_type :: string

text \<open>The data of a status response, as the refresh reads them: an object, with its
  number-valued properties, and with its \<open>coordinates\<close> (\<open>None\<close> when \<open>data.coordinates\<close>
  is undefined or null, so that reading \<open>data.coordinates.lat\<close> throws).\<close>

record robotStatus =
  rs_fields :: "(string \<times> number) list"
  rs_coordinates :: "(number \<times> number) option"

text \<open>What the refresh reads and writes: \<open>State.isConnected\<close>, \<open>State.robot\<close>,
  \<open>State.sensors\<close> on its numeric fields, the class of the status dot and the status
  text (\<open>None\<close> when the page lacks the element), the items of the log list (\<open>None\<close>
  when the page lacks it), and the alert service (\<open>None\<close> when \<open>AlertService\<close> is
  undefined). The texts of the gauges and the chart are written by the same callback and
  read by nothing here; they are left out, and writing them (\<open>DOM.setText\<close>,
  \<open>ChartService.update\<close>) does not throw.\<close>

record app =
  isConnected :: bool
  robot :: robotStatus
  sensors :: "(string \<times> number) list"
  statusIndicator :: "string option"
  statusText :: "string option"
  logList :: "logItem list option"
  alertSvc :: "alertService option"

definition txt_connected :: string where \<comment> \<open>"connected"\<close>
  "txt_connected = [CHR 0xE5, CHR 0xB7, CHR 0xB2, CHR 0xE8, CHR 0xBF, CHR 0x9E, CHR 0xE6, CHR 0x8E,
     CHR 0xA5]"

definition txt_not_connected :: string where \<comment> \<open>"not connected"\<close>
  "txt_not_connected = [CHR 0xE6, CHR 0x9C, CHR 0xAA, CHR 0xE8, CHR 0xBF, CHR 0x9E, CHR 0xE6,
     CHR 0x8E, CHR 0xA5]"

text \<open>\<open>DOM.setConnectionStatus(connected)\<close>.\<close>

definition setConnectionStatus :: "bool \<Rightarrow> app \<Rightarrow> app" where
  "setConnectionStatus online st =
     st\<lparr>statusIndicator :=
          map_option (\<lambda>_. ''status-dot status-dot--'' @ (if online then ''online'' else ''offline''))
            (statusIndicator st),
        statusText :=
          map_option (\<lambda>_. if online then txt_connected else txt_not_connected) (statusText st)\<rparr>"

text \<open>\<open>LogService.add(message, type)\<close>: the item is prepended, and items are removed from
  the end while there are more than \<open>maxItems = 10\<close>.\<close>

definition maxItems :: nat where "maxItems = 10"

definition log_add :: "int \<Rightarrow> string \<Rightarrow> string \<Rightarrow> app \<Rightarrow> app" where
  "log_add now message type st =
     st\<lparr>logList :=
          map_option
            (\<lambda>items. take maxItems
               (\<lparr>log_time = now, log_message = message, log_type = type\<rparr> # items))
            (logList st)\<rparr>"

text \<open>\<open>onSuccess\<close> and \<open>onFailure\<close> of \<open>startRobotStatusRefresh\<close>. \<open>onSuccess\<close> first
  stores the data, then writes the gauges; there, reading \<^verbatim>\<open>data.coordinates.lat\<close>
  throws a TypeError on data without coordinates (the message is that of V8), and the
  rest of the callback does not run. The result is the error, if one was thrown, and
  the state that the callback leaves.\<close>

definition onSuccess :: "int \<Rightarrow> robotStatus \<Rightarrow> app \<Rightarrow> js_error option \<times> app" where
  "onSuccess now d st =
     (let s1 = st\<lparr>robot := d\<rparr> in
      case rs_coordinates d of
        None \<Rightarrow>
          (Some (TypeError ''Cannot read properties of undefined (reading 'lat')''), s1)
      | Some coordinates \<Rightarrow>
          (let s2 = (if \<not> isConnected s1
                     then (let a = s1\<lparr>isConnected := True\<rparr>;
                               b = setConnectionStatus True a;
                               c = log_add now msg_connected ''info'' b
                           in c\<lparr>alertSvc :=
                                  map_option (checkConnection now True) (alertSvc c)\<rparr>)
                     else s1)
           in (None,
               s2\<lparr>alertSvc :=
                    map_option (check now (rs_fields d) (sensors s2)) (alertSvc s2)\<rparr>)))"

definition onFailure :: "int \<Rightarrow> app \<Rightarrow> app" where
  "onFailure now st =
     (if isConnected st
      then (let a = st\<lparr>isConnected := False\<rparr>;
                b = setConnectionStatus False a;
                c = log_add now msg_backend_lost ''error'' b
            in c\<lparr>alertSvc := map_option (checkConnection now False) (alertSvc c)\<rparr>)
      else st)"

text \<open>One run of \<open>refresh\<close>:
  \<^verbatim>\<open>try { const result = await API.getRobotStatus(); if (result.success) onSuccess(result.data); }\<close>
  \<^verbatim>\<open>catch (error) { onFailure(); }\<close>
  \<open>API.getRobotStatus()\<close> either throws (network error, timeout, a status that is not
  ok, a body that is not JSON) or resolves to a body \<open>{success, data}\<close>. An error that
  \<open>onSuccess\<close> throws is caught by the same \<open>catch\<close>, so \<open>onFailure\<close> runs on the state
  that \<open>onSuccess\<close> left.\<close>

datatype fetched = Rejected | Resolved bool robotStatus

fun refresh :: "app \<Rightarrow> int \<times> fetched \<Rightarrow> app" where
  "refresh st (now, Rejected) = onFailure now st"
| "refresh st (now, Resolved success d) =
     (if success
      then (case onSuccess now d st of
              (Some error, s) \<Rightarrow> onFailure now s
            | (None, s) \<Rightarrow> s)
      else st)"

text \<open>The ticks of the timer, each with its time and the outcome of its fetch.\<close>

definition run_refresh :: "app \<Rightarrow> (int \<times> fetched) list \<Rightarrow> app" where
  "run_refresh st ticks = foldl refresh st ticks"

text \<open>Whether the alert service holds an active alert of the given rule.\<close>

definition alert_active :: "string \<Rightarrow> app \<Rightarrow> bool" where
  "alert_active ruleId st =
     (case alertSvc st of
        None \<Rightarrow> False
      | Some s \<Rightarrow> ruleId \<in> fst ` set (activeAlerts s))"

text \<open>The \<open>State\<close> literal of app.js, on a page that has the status dot, the status text
  and the log list, with the alert service loaded and initialised.\<close>

definition initial_app :: app where
  "initial_app =
     \<lparr>isConnected = False,
      robot = \<lparr>rs_fields = [(''battery'', 0), (''speed'', 0), (''temperature'', 0)],
               rs_coordinates = Some (0, 0)\<rparr>,
      sensors = [(''soilHumidity'', 0), (''soilTemp'', 0), (''light'', 0), (''airHumidity'', 0)],
      statusIndicator = Some [],
      statusText = Some [],
      logList = Some [],
      alertSvc = Some (init initial_alertService)\<rparr>"

section \<open>Properties of the task list (mockData.js)\<close>

lemma task_id_apply_update: "task_id (apply_update d t) = task_id t"
  by (simp add: apply_update_def Let_def split: option.splits)

lemma ids_update_first: "map task_id (update_first i d ts) = map task_id ts"
  by (induction ts) (simp_all add: task_id_apply_update)

lemma ids_updateTask: "map task_id (snd (updateTask i d ts)) = map task_id ts"
  by (simp add: updateTask_def ids_update_first split: option.splits)

lemma newId_greater: "t \<in> set ts \<Longrightarrow> task_id t < newId ts"
proof -
  assume t: "t \<in> set ts"
  then have ne: "ts \<noteq> []" by auto
  from t have "task_id t \<le> Max (set (map task_id ts))" by simp
  with ne show ?thesis by (simp add: newId_def)
qed

lemma newId_fresh: "newId ts \<notin> set (map task_id ts)"
proof
  assume "newId ts \<in> set (map task_id ts)"
  then obtain t where "t \<in> set ts" and "task_id t = newId ts" by auto
  with newId_greater [of t ts] show False by simp
qed

lemma created_id: "task_id (fst (createTask nm st pr ts)) = newId ts"
  by (simp add: createTask_def Let_def)

lemma createTask_result:
  "createTask nm st pr ts =
     (\<lparr>task_id = newId ts, task_name = nm, task_status = or_string st ''pending'',
       task_progress = or_number pr 0\<rparr>,
      ts @ [\<lparr>task_id = newId ts, task_name = nm, task_status = or_string st ''pending'',
             task_progress = or_number pr 0\<rparr>])"
  by (simp add: createTask_def Let_def)

lemma distinct_createTask:
  "distinct (map task_id ts) \<Longrightarrow> distinct (map task_id (snd (createTask nm st pr ts)))"
  using newId_fresh [of ts] by (simp add: createTask_def Let_def)

lemma distinct_deleteTask:
  "distinct (map task_id ts) \<Longrightarrow> distinct (map task_id (snd (deleteTask i ts)))"
  by (simp add: deleteTask_def Let_def distinct_map_filter)

lemma distinct_task_step:
  "distinct (map task_id ts) \<Longrightarrow> distinct (map task_id (task_step ts x))"
  by (cases x) (simp_all add: distinct_createTask distinct_deleteTask ids_updateTask)

lemma distinct_run_tasks:
  "distinct (map task_id ts) \<Longrightarrow> distinct (map task_id (run_tasks ts ops))"
  unfolding run_tasks_def
  by (induction ops arbitrary: ts) (simp_all add: distinct_task_step)

lemma distinct_initial_tasks: "distinct (map task_id initial_tasks)"
  by (simp add: initial_tasks_def)

text \<open>
  Claim C6, as the code has it. Task ids stay pairwise distinct under every sequence of
  create, update and delete operations, from any list with distinct ids and so from the
  initial list; a new id never equals an id that is in the list; and after the task with
  id \<open>X\<close> is deleted, the next new id differs from \<open>X\<close> whenever a task with a larger id
  remains. The new id is one more than the largest id left, so the id of a deleted last
  task is handed out again.
\<close>

theorem C6_task_ids_unique_and_fresh:
  "(distinct (map task_id ts) \<longrightarrow> distinct (map task_id (run_tasks ts ops)))
   \<and> distinct (map task_id (run_tasks initial_tasks ops))
   \<and> task_id (fst (createTask nm st pr ts)) \<notin> set (map task_id ts)
   \<and> ((\<exists>t \<in> set ts. X < task_id t) \<longrightarrow>
        task_id (fst (createTask nm st pr (snd (deleteTask X ts)))) \<noteq> X)"
proof (intro conjI impI)
  assume "distinct (map task_id ts)"
  then show "distinct (map task_id (run_tasks ts ops))" by (rule distinct_run_tasks)
next
  show "distinct (map task_id (run_tasks initial_tasks ops))"
    by (rule distinct_run_tasks [OF distinct_initial_tasks])
next
  show "task_id (fst (createTask nm st pr ts)) \<notin> set (map task_id ts)"
    using newId_fresh [of ts] by (simp add: created_id)
next
  assume "\<exists>t \<in> set ts. X < task_id t"
  then obtain t where t: "t \<in> set ts" and gt: "X < task_id t" by blast
  let ?rest = "snd (deleteTask X ts)"
  from t gt have "t \<in> set ?rest" by (simp add: deleteTask_def Let_def)
  then have "task_id t < newId ?rest" by (rule newId_greater)
  with gt show "task_id (fst (createTask nm st pr ?rest)) \<noteq> X" by (simp add: created_id)
qed

text \<open>The statement at the initial list: task 2 is deleted while task 3 remains, and the
  new task gets an id other than 2.\<close>

theorem C6_task_ids_witness:
  "distinct (map task_id initial_tasks)
   \<and> distinct (map task_id (run_tasks initial_tasks [Delete 2, Create ''X'' None None]))
   \<and> (\<exists>t \<in> set initial_tasks. 2 < task_id t)
   \<and> task_id (fst (createTask ''X'' None None (snd (deleteTask 2 initial_tasks)))) \<noteq> 2"
proof -
  have d: "distinct (map task_id initial_tasks)" by (rule distinct_initial_tasks)
  have e: "\<exists>t \<in> set initial_tasks. 2 < task_id t" by (simp add: initial_tasks_def)
  from C6_task_ids_unique_and_fresh
         [of initial_tasks "[Delete 2, Create ''X'' None None]" "''X''" None None 2] d e
  show ?thesis by blast
qed

text \<open>Where the sentence of C6 about reuse fails: with the initial tasks 1, 2, 3, deleting
  task 3 and creating a task gives the id 3 again.\<close>

theorem C6_deleted_id_reused:
  "task_id (fst (createTask ''X'' None None (snd (deleteTask 3 initial_tasks)))) = 3
   \<and> 3 \<in> set (map task_id initial_tasks)"
  by (simp add: createTask_def deleteTask_def initial_tasks_def newId_def Let_def)

section \<open>Properties of the statistics (mockData.js)\<close>

lemma pow2_powr: "pow2 k = 2 powr (of_int k)"
  by (simp add: pow2_def powr_real_of_int inverse_eq_divide)

lemma pow2_pos: "0 < pow2 k"
  by (simp add: pow2_def)

lemma floor_log2: "0 < x \<Longrightarrow> pow2 k \<le> x \<Longrightarrow> x < pow2 (k + 1) \<Longrightarrow> \<lfloor>log 2 x\<rfloor> = k"
  using floor_log_eq_powr_iff [of x 2 k] by (simp add: pow2_powr)

text \<open>The rounding of a number whose binade is known.\<close>

lemma binary64_eval:
  assumes "pow2 k \<le> \<bar>x\<bar>" and "\<bar>x\<bar> < pow2 (k + 1)"
  shows "binary64 x =
           of_int (roundeven (x / pow2 (max k (- 1022) - 52))) * pow2 (max k (- 1022) - 52)"
proof -
  from assms(1) pow2_pos [of k] have pos: "0 < \<bar>x\<bar>" by linarith
  then have nz: "x \<noteq> 0" by simp
  have "\<lfloor>log 2 \<bar>x\<bar>\<rfloor> = k" by (rule floor_log2 [OF pos assms])
  with nz show ?thesis by (simp add: binary64_def Let_def)
qed




text \<open>The binary64 values that the statements below meet.\<close>

lemma binary64_3_8: "binary64 (3 / 8) = 3 / 8"
  by (simp add: binary64_eval [of "- 2"] pow2_def roundeven_def Let_def)

lemma binary64_75_2: "binary64 (75 / 2) = 75 / 2"
  by (simp add: binary64_eval [of 5] pow2_def roundeven_def Let_def)

lemma binary64_5_4: "binary64 (5 / 4) = 5 / 4"
  by (simp add: binary64_eval [of 0] pow2_def roundeven_def Let_def)

lemma binary64_125: "binary64 125 = 125"
  by (simp add: binary64_eval [of 6] pow2_def roundeven_def Let_def)


lemma binary64_15: "binary64 15 = 15"
  by (simp add: binary64_eval [of 3] pow2_def roundeven_def Let_def)




lemma number_of_small: "\<bar>y\<bar> < 2 ^ 1024 \<Longrightarrow> number_of y = Finite y"
  by (auto simp add: number_of_def)


lemma getStatistics_state:
  "snd (getStatistics u st) =
     st\<lparr>completedArea :=
          clamp (binary64 (completedArea st + random u 0 (binary64 (1 / 10)))) 0 (totalArea st)\<rparr>"
  by (simp add: getStatistics_def Let_def)

text \<open>The read keeps the completed area within the total area, whatever the state was.\<close>

lemma getStatistics_bounded:
  "completedArea (snd (getStatistics u st)) \<le> totalArea (snd (getStatistics u st))"
  by (simp add: getStatistics_state clamp_def)




text \<open>The progress when nothing overflows: the quotient rounded to binary64, times 100
  rounded to binary64, then to one decimal place, then to binary64.\<close>

lemma quotient_times_100:
  assumes "b \<noteq> 0" and "\<bar>binary64 (a / b)\<bar> < 2 ^ 1024"
    and "\<bar>binary64 (binary64 (a / b) * 100)\<bar> < 2 ^ 1024"
  shows "js_mul (js_div a b) 100 = Finite (binary64 (binary64 (a / b) * 100))"
proof -
  have d: "js_div a b = Finite (binary64 (a / b))"
    using assms(1) by (simp add: js_div_def number_of_small [OF assms(2)])
  show ?thesis by (simp add: d number_of_small [OF assms(3)])
qed

lemma progress_finite:
  assumes "b \<noteq> 0" and "\<bar>binary64 (a / b)\<bar> < 2 ^ 1024"
    and "\<bar>binary64 (binary64 (a / b) * 100)\<bar> < 10 ^ 21"
  shows "toFixed1 (js_mul (js_div a b) 100) =
           Finite (binary64 (round1 (binary64 (binary64 (a / b) * 100))))"
proof -
  have "(10::real) ^ 21 < 2 ^ 1024" by simp
  with assms(3) have "\<bar>binary64 (binary64 (a / b) * 100)\<bar> < 2 ^ 1024" by linarith
  then have m: "js_mul (js_div a b) 100 = Finite (binary64 (binary64 (a / b) * 100))"
    by (rule quotient_times_100 [OF assms(1) assms(2)])
  show ?thesis using assms(3) by (simp add: m toFixed1_number_def)
qed

lemma progress_15_40: "toFixed1 (js_mul (js_div 15 40) 100) = Finite (375 / 10)"
proof -
  have q: "binary64 (15 / 40) = 3 / 8" using binary64_3_8 by simp
  have m: "binary64 (3 / 8 * 100) = 75 / 2" using binary64_75_2 by simp
  have r: "round1 (75 / 2) = 75 / 2" by (simp add: round1_def)
  have "toFixed1 (js_mul (js_div 15 40) 100) =
           Finite (binary64 (round1 (binary64 (binary64 (15 / 40) * 100))))"
    by (rule progress_finite) (simp_all only: q m, simp_all)
  also have "\<dots> = Finite (75 / 2)" by (simp only: q m r binary64_75_2)
  finally show ?thesis by simp
qed


lemma progress_50_40: "toFixed1 (js_mul (js_div 50 40) 100) = Finite 125"
proof -
  have q: "binary64 (50 / 40) = 5 / 4" using binary64_5_4 by simp
  have m: "binary64 (5 / 4 * 100) = 125" using binary64_125 by simp
  have r: "round1 125 = 125" by (simp add: round1_def)
  have "toFixed1 (js_mul (js_div 50 40) 100) =
           Finite (binary64 (round1 (binary64 (binary64 (50 / 40) * 100))))"
    by (rule progress_finite) (simp_all only: q m, simp_all)
  also have "\<dots> = Finite 125" by (simp only: q m r binary64_125)
  finally show ?thesis .
qed





text \<open>
  Claim C5 at POST /api/statistics with \<open>completedArea: 50, totalArea: 40\<close>: the update
  stores both values as they come, so the stored completed area, 50, exceeds the stored
  total area, 40, and the returned progress is 125.
\<close>

theorem C5_update_stores_area_above_total:
  "completedArea (snd (updateStatistics
      \<lparr>sd_completedArea = Some 50, sd_totalArea = Some 40\<rparr> initial_state)) = 50
   \<and> totalArea (snd (updateStatistics
      \<lparr>sd_completedArea = Some 50, sd_totalArea = Some 40\<rparr> initial_state)) = 40
   \<and> \<not> completedArea (snd (updateStatistics
      \<lparr>sd_completedArea = Some 50, sd_totalArea = Some 40\<rparr> initial_state))
      \<le> totalArea (snd (updateStatistics
      \<lparr>sd_completedArea = Some 50, sd_totalArea = Some 40\<rparr> initial_state))
   \<and> stat_progress (fst (updateStatistics
      \<lparr>sd_completedArea = Some 50, sd_totalArea = Some 40\<rparr> initial_state)) = Finite 125"
  using progress_50_40 by (simp add: updateStatistics_def Let_def)

section \<open>Properties of the cache merge (dataSource.js)\<close>

lemma map_of_assoc_set: "map_of (assoc_set k v xs) = (map_of xs)(k \<mapsto> v)"
  by (induction xs) (auto simp: fun_eq_iff)

lemma map_of_assign:
  "map_of (foldl (\<lambda>acc (k, v). assoc_set k v acc) target ps) k =
     (case map_of (rev ps) k of None \<Rightarrow> map_of target k | Some v \<Rightarrow> Some v)"
  by (induction ps rule: rev_induct) (auto simp: map_of_assoc_set split: option.splits)

lemma map_of_spread:
  "map_of (spread target source) k =
     (case map_of (rev (own_props source)) k of None \<Rightarrow> map_of target k | Some v \<Rightarrow> Some v)"
  by (simp add: spread_def map_of_assign)

lemma map_of_rev_None: "map_of (rev ps) k = None \<longleftrightarrow> k \<notin> fst ` set ps"
  by (simp add: map_of_eq_None_iff)

lemma spread_absent:
  "k \<notin> set (keys source) \<Longrightarrow> map_of (spread target source) k = map_of target k"
  using map_of_rev_None [of "own_props source" k]
  by (simp add: map_of_spread keys_def)

lemma spread_present:
  "k \<in> set (keys source) \<Longrightarrow>
   map_of (spread target source) k = map_of (rev (own_props source)) k"
  using map_of_rev_None [of "own_props source" k]
  by (auto simp add: map_of_spread keys_def split: option.splits)

lemma on_message_malformed: "on_message now topic None ds = ds"
  by (simp add: on_message_def)

lemma topics_distinct:
  "topic_status \<noteq> topic_sensors" "topic_status \<noteq> topic_tasks"
  "topic_status \<noteq> topic_statistics" "topic_sensors \<noteq> topic_tasks"
  "topic_sensors \<noteq> topic_statistics" "topic_tasks \<noteq> topic_statistics"
  by (simp_all add: topic_status_def topic_sensors_def topic_tasks_def topic_statistics_def)

lemma on_message_status:
  "on_message now topic_status (Some d) ds =
     ds\<lparr>cache_robot := spread (cache_robot ds) d, lastUpdate := Some now\<rparr>"
  by (simp add: on_message_def)

lemma on_message_sensors:
  "on_message now topic_sensors (Some d) ds =
     ds\<lparr>cache_sensors := spread (cache_sensors ds) d, lastUpdate := Some now\<rparr>"
  using topics_distinct by (simp add: on_message_def)

lemma on_message_statistics:
  "on_message now topic_statistics (Some d) ds =
     ds\<lparr>cache_statistics := spread (cache_statistics ds) d, lastUpdate := Some now\<rparr>"
  using topics_distinct by (simp add: on_message_def)

lemma on_message_tasks:
  "on_message now topic_tasks (Some d) ds =
     ds\<lparr>cache_tasks := (case d of JArr xs \<Rightarrow> JArr xs | _ \<Rightarrow> JArr []),
        lastUpdate := Some now\<rparr>"
  using topics_distinct by (simp add: on_message_def)

lemma on_message_other:
  "topic \<notin> {topic_status, topic_sensors, topic_tasks, topic_statistics} \<Longrightarrow>
   on_message now topic (Some d) ds = ds\<lparr>lastUpdate := Some now\<rparr>"
  by (simp add: on_message_def)

text \<open>The merge of the other two stream transports has the same frame on the robot
  object, and drops a payload that does not parse.\<close>

lemma on_data_malformed: "on_data now None ds = ds"
  by (simp add: on_data_def)

lemma updateCache_robot_frame:
  assumes "updateCache now d ds = Inr ds'" and "k \<notin> set (keys (the (property d ''robot'')))"
    and "property d ''robot'' \<noteq> None"
  shows "map_of (cache_robot ds') k = map_of (cache_robot ds) k"
  using assms
  by (auto simp add: updateCache_def Let_def spread_absent split: if_splits option.splits)

text \<open>
  Claim C9, as the code has it. A message whose payload does not parse leaves the whole
  module state as it was. A payload that parses sets \<open>lastUpdate\<close> to the time of arrival
  on every topic and, beyond that: on the status, sensors and statistics topics it changes
  only the object of that category, by a shallow merge (a top-level key that the payload
  lacks keeps its value, a key that the payload has takes the payload's value, which for a
  nested object is the whole object); on the tasks topic it replaces the task list by the
  payload when that is an array and by the empty list otherwise; on any other topic it
  changes nothing else.
\<close>

theorem C9_mqtt_message_merge:
  "on_message now topic None ds = ds
   \<and> on_message now topic_status (Some d) ds =
        ds\<lparr>cache_robot := spread (cache_robot ds) d, lastUpdate := Some now\<rparr>
   \<and> on_message now topic_sensors (Some d) ds =
        ds\<lparr>cache_sensors := spread (cache_sensors ds) d, lastUpdate := Some now\<rparr>
   \<and> on_message now topic_statistics (Some d) ds =
        ds\<lparr>cache_statistics := spread (cache_statistics ds) d, lastUpdate := Some now\<rparr>
   \<and> on_message now topic_tasks (Some d) ds =
        ds\<lparr>cache_tasks := (case d of JArr xs \<Rightarrow> JArr xs | _ \<Rightarrow> JArr []),
           lastUpdate := Some now\<rparr>
   \<and> (topic \<notin> {topic_status, topic_sensors, topic_tasks, topic_statistics} \<longrightarrow>
        on_message now topic (Some d) ds = ds\<lparr>lastUpdate := Some now\<rparr>)
   \<and> (k \<notin> set (keys d) \<longrightarrow> map_of (spread category d) k = map_of category k)
   \<and> (k \<in> set (keys d) \<longrightarrow> map_of (spread category d) k = map_of (rev (own_props d)) k)"
  by (simp add: on_message_malformed on_message_status on_message_sensors on_message_statistics
      on_message_tasks on_message_other spread_absent spread_present)

text \<open>The statement at the initial cache and the payload \<open>{"battery": 50}\<close>: not a key of
  the payload, \<open>speed\<close> keeps its value 0; \<open>battery\<close> becomes 50; and on a topic that is
  none of the four only \<open>lastUpdate\<close> changes.\<close>

theorem C9_mqtt_message_merge_witness:
  "''speed'' \<notin> set (keys (JObj [(''battery'', JNum 50)]))
   \<and> map_of (spread (cache_robot initial_dataSource) (JObj [(''battery'', JNum 50)])) ''speed''
       = Some (JNum 0)
   \<and> ''battery'' \<in> set (keys (JObj [(''battery'', JNum 50)]))
   \<and> map_of (spread (cache_robot initial_dataSource) (JObj [(''battery'', JNum 50)])) ''battery''
       = Some (JNum 50)
   \<and> ''robot/other'' \<notin> {topic_status, topic_sensors, topic_tasks, topic_statistics}
   \<and> on_message 9 ''robot/other'' (Some (JObj [(''battery'', JNum 50)])) initial_dataSource
       = initial_dataSource\<lparr>lastUpdate := Some 9\<rparr>"
proof -
  have a: "''speed'' \<notin> set (keys (JObj [(''battery'', JNum 50)]))" by (simp add: keys_def)
  have b: "''battery'' \<in> set (keys (JObj [(''battery'', JNum 50)]))" by (simp add: keys_def)
  have c: "''robot/other'' \<notin> {topic_status, topic_sensors, topic_tasks, topic_statistics}"
    by (simp add: topic_status_def topic_sensors_def topic_tasks_def topic_statistics_def)
  note r = C9_mqtt_message_merge [of 9 "''robot/other''" initial_dataSource
      "JObj [(''battery'', JNum 50)]" "''speed''" "cache_robot initial_dataSource"]
  note r' = C9_mqtt_message_merge [of 9 "''robot/other''" initial_dataSource
      "JObj [(''battery'', JNum 50)]" "''battery''" "cache_robot initial_dataSource"]
  from r a have 1: "map_of (spread (cache_robot initial_dataSource)
      (JObj [(''battery'', JNum 50)])) ''speed'' = Some (JNum 0)"
    by (simp add: initial_dataSource_def)
  from r' b have 2: "map_of (spread (cache_robot initial_dataSource)
      (JObj [(''battery'', JNum 50)])) ''battery'' = Some (JNum 50)"
    by simp
  from r c have 3: "on_message 9 ''robot/other'' (Some (JObj [(''battery'', JNum 50)]))
      initial_dataSource = initial_dataSource\<lparr>lastUpdate := Some 9\<rparr>"
    by blast
  from a b c 1 2 3 show ?thesis by blast
qed

text \<open>Where C9 fails as it is stated. A valid payload \<open>{}\<close> on the tasks topic empties a
  task list of one task, and writes \<open>lastUpdate\<close>, which the payload does not hold. A valid
  payload \<open>{"coordinates": {"lat": 5}}\<close> on the status topic replaces the whole
  \<open>coordinates\<close> object, so the cached \<open>lon\<close> is gone.\<close>

theorem C9_valid_payload_overwrites:
  "cache_tasks (on_message 1 topic_tasks (Some (JObj []))
      (initial_dataSource\<lparr>cache_tasks := JArr [JObj [(''id'', JNum 1)]]\<rparr>)) = JArr []
   \<and> lastUpdate (on_message 1 topic_tasks (Some (JObj []))
      (initial_dataSource\<lparr>cache_tasks := JArr [JObj [(''id'', JNum 1)]]\<rparr>)) = Some 1
   \<and> lastUpdate (initial_dataSource\<lparr>cache_tasks := JArr [JObj [(''id'', JNum 1)]]\<rparr>) = None
   \<and> map_of (cache_robot initial_dataSource) ''coordinates''
       = Some (JObj [(''lat'', JNum 0), (''lon'', JNum 0)])
   \<and> map_of (cache_robot (on_message 1 topic_status
        (Some (JObj [(''coordinates'', JObj [(''lat'', JNum 5)])])) initial_dataSource))
        ''coordinates'' = Some (JObj [(''lat'', JNum 5)])"
  by (simp add: on_message_tasks on_message_status initial_dataSource_def spread_def)

section \<open>Properties of the command path (dataSource.js)\<close>

lemma send_guarded_no_connection:
  "ds_connection ds = None \<Longrightarrow> send_guarded kind key code ds = ds"
  by (simp add: send_guarded_def Let_def)

text \<open>The acknowledgment says \<open>executed: false\<close> only when the HTTP transport is configured
  and its request throws.\<close>

lemma handleCommand_executed:
  "executed (fst (handleCommand http c ds)) = (\<not> (config_type ds = Http \<and> isl http))"
  by (cases http) (simp_all add: handleCommand_def Let_def)

lemma handleAction_executed:
  "executed (fst (handleAction http c ds)) = (\<not> (config_type ds = Http \<and> isl http))"
  by (cases http) (simp_all add: handleAction_def Let_def)

text \<open>Without a connection object, on every transport but HTTP, the command is reported
  as sent and the module state is as before.\<close>

lemma handleCommand_without_connection:
  "ds_connection ds = None \<Longrightarrow> config_type ds \<noteq> Http \<Longrightarrow>
   handleCommand http c ds =
     (\<lparr>executed = True, ack_key = ''command'', ack_code = c,
       ack_message = msg_command_sent @ label_of COMMANDS c\<rparr>, ds)"
  by (simp add: handleCommand_def Let_def send_guarded_no_connection)

lemma handleAction_without_connection:
  "ds_connection ds = None \<Longrightarrow> config_type ds \<noteq> Http \<Longrightarrow>
   handleAction http c ds =
     (\<lparr>executed = True, ack_key = ''action'', ack_code = c,
       ack_message = label_of ACTIONS c @ msg_action_started\<rparr>, ds)"
  by (simp add: handleAction_def Let_def send_guarded_no_connection)

lemma handleCommand_key: "ack_key (fst (handleCommand http c ds)) = ''command''"
  by (cases http) (simp_all add: handleCommand_def Let_def)

lemma handleAction_key: "ack_key (fst (handleAction http c ds)) = ''action''"
  by (cases http) (simp_all add: handleAction_def Let_def)

text \<open>
  Claim C3 at the module as it is configured (MQTT) before any connection exists
  (\<open>connection\<close> is \<open>null\<close>, \<open>isConnected\<close> is false): \<open>handleCommand('forward')\<close> and
  \<open>handleAction('scan')\<close> send nothing, leave the state as it was, and still return
  \<open>executed: true\<close> with the messages "command sent: forward" and "scan job started".
  Nothing is thrown.
\<close>

theorem C3_no_connection_still_executed:
  "handleCommand http ''forward'' initial_dataSource =
     (\<lparr>executed = True, ack_key = ''command'', ack_code = ''forward'',
       ack_message = msg_command_sent
          @ [CHR 0xE5, CHR 0x89, CHR 0x8D, CHR 0xE8, CHR 0xBF, CHR 0x9B]\<rparr>,
      initial_dataSource)
   \<and> handleAction http ''scan'' initial_dataSource =
     (\<lparr>executed = True, ack_key = ''action'', ack_code = ''scan'',
       ack_message = [CHR 0xE6, CHR 0x89, CHR 0xAB, CHR 0xE6, CHR 0x8F, CHR 0x8F]
          @ msg_action_started\<rparr>,
      initial_dataSource)
   \<and> ds_connection initial_dataSource = None \<and> \<not> ds_isConnected initial_dataSource"
  by (simp add: handleCommand_def handleAction_def send_guarded_def initial_dataSource_def
      label_of_def COMMANDS_def ACTIONS_def Let_def)

section \<open>Properties of the controller (robotController.js)\<close>

lemma sendSuccess_status: "status (sendSuccess now d extra) = 200"
  by (simp add: sendSuccess_def)

lemma sendSuccess_success:
  "''success'' \<notin> fst ` set extra \<Longrightarrow>
   map_of (body (sendSuccess now d extra)) ''success'' = Some (JBool True)"
  by (simp add: sendSuccess_def map_of_spread map_of_eq_None_iff [THEN iffD2]
      split: option.splits)

lemma sendSuccess_data:
  "''data'' \<notin> fst ` set extra \<Longrightarrow> map_of (body (sendSuccess now d extra)) ''data'' = Some d"
  by (simp add: sendSuccess_def map_of_spread map_of_eq_None_iff [THEN iffD2]
      split: option.splits)





text \<open>With mockData wired in, the same request does change the stored robot status.\<close>

lemma mock_wired_updateStatus_stores:
  "battery (mock_state (snd (route mock_wired_controller False (Inr ()) 7
      (POST_robot_status (JObj [(''battery'', JNum 50)]) []) initial_server))) = 50
   \<and> battery (mock_state initial_server) = 85"
  by (simp add: express_json_def asyncHandler_def exports_updateStatus_def
      mock_wired_controller_def keys_def
      updateRobotStatus_def robotData_of_def num_property_def property_def Let_def clamp_def
      initial_server_def initial_state_def)

text \<open>
  Claim C1 at POST /api/tasks with the body \<open>{"name": "X"}\<close>, on the controller as it
  stands: the name passes the check, then the handler reads the identifier \<open>mockData\<close>,
  which the module does not declare; the ReferenceError goes to the error middleware and
  the answer is 500 with \<open>success: false\<close>. The server state is as before: no task was
  created. GET /api/tasks fails the same way.
\<close>

theorem C1_post_tasks_reference_error:
  "route robotController production http now
     (POST_tasks \<lparr>td_name = Some ''X'', td_status = None, td_progress = None\<rparr>) srv =
   (\<lparr>status = 500,
     body = [(''success'', JBool False),
             (''message'', JStr (if production then ''Internal Server Error''
                                 else ''mockData is not defined''))]\<rparr>, srv)
   \<and> fst (route robotController production http now GET_tasks srv) =
     \<lparr>status = 500,
      body = [(''success'', JBool False),
              (''message'', JStr (if production then ''Internal Server Error''
                                  else ''mockData is not defined''))]\<rparr>"
  by (simp add: asyncHandler_def exports_createTask_def exports_getTasks_def robotController_def
      truthy_str_def)

text \<open>With mockData wired in, as the header of the controller describes, the sentence of
  C1 holds: the answer carries a task with an id that no task had, the given name, the
  status \<open>pending\<close> and the progress 0 when those are omitted, and the list that a later GET
  returns includes the task.\<close>

lemma post_tasks_mock_wired:
  "truthy_str (td_name b) \<Longrightarrow>
   route mock_wired_controller production http now (POST_tasks b) srv =
     (sendSuccess now
        (task_json (fst (createTask (str_of (td_name b)) (td_status b) (td_progress b)
                           (mock_tasks srv))))
        [(''message'', JStr msg_task_created)],
      srv\<lparr>mock_tasks :=
            snd (createTask (str_of (td_name b)) (td_status b) (td_progress b)
                   (mock_tasks srv))\<rparr>)"
  by (simp add: asyncHandler_def exports_createTask_def mock_wired_controller_def
      split: prod.splits)

lemma get_tasks_mock_wired:
  "route mock_wired_controller production http now GET_tasks srv =
     (sendSuccess now (JArr (map task_json (mock_tasks srv))) [], srv)"
  by (simp add: asyncHandler_def exports_getTasks_def mock_wired_controller_def getTasks_def)

lemma mock_wired_create_then_list:
  assumes "truthy_str (td_name b)"
  shows "\<exists>t srv'. route mock_wired_controller production http now (POST_tasks b) srv
             = (sendSuccess now (task_json t) [(''message'', JStr msg_task_created)], srv')
         \<and> task_id t \<notin> set (map task_id (mock_tasks srv))
         \<and> task_name t = str_of (td_name b)
         \<and> (td_status b = None \<longrightarrow> task_status t = ''pending'')
         \<and> (td_progress b = None \<longrightarrow> task_progress t = 0)
         \<and> t \<in> set (mock_tasks srv')
         \<and> fst (route mock_wired_controller production http now' GET_tasks srv')
             = sendSuccess now' (JArr (map task_json (mock_tasks srv'))) []"
proof -
  let ?t = "\<lparr>task_id = newId (mock_tasks srv), task_name = str_of (td_name b),
             task_status = or_string (td_status b) ''pending'',
             task_progress = or_number (td_progress b) 0\<rparr>"
  let ?srv = "srv\<lparr>mock_tasks := mock_tasks srv @ [?t]\<rparr>"
  have "route mock_wired_controller production http now (POST_tasks b) srv
          = (sendSuccess now (task_json ?t) [(''message'', JStr msg_task_created)], ?srv)"
    using assms by (simp add: post_tasks_mock_wired createTask_result del: route.simps)
  moreover have "task_id ?t \<notin> set (map task_id (mock_tasks srv))"
    using newId_fresh [of "mock_tasks srv"] by simp
  moreover have "td_status b = None \<longrightarrow> task_status ?t = ''pending''"
    by (simp add: or_string_def)
  moreover have "td_progress b = None \<longrightarrow> task_progress ?t = 0"
    by (simp add: or_number_def)
  moreover have "?t \<in> set (mock_tasks ?srv)" by simp
  moreover have "fst (route mock_wired_controller production http now' GET_tasks ?srv)
             = sendSuccess now' (JArr (map task_json (mock_tasks ?srv))) []"
    by (simp add: get_tasks_mock_wired del: route.simps)
  ultimately show ?thesis by (intro exI [of _ ?t] exI [of _ ?srv]) simp
qed

text \<open>The statistics routes of the controller as it stands fail in the same way; with
  mockData wired in, POST /api/statistics with \<open>completedArea: 15, totalArea: 40\<close> answers
  the progress 37.5.\<close>

lemma statistics_routes_reference_error:
  "asyncHandler False (exports_getStatistics robotController u now srv) =
     (\<lparr>status = 500,
       body = [(''success'', JBool False), (''message'', JStr ''mockData is not defined'')]\<rparr>,
      srv)
   \<and> asyncHandler False (exports_updateStatistics robotController now
        (JObj [(''completedArea'', JNum 15), (''totalArea'', JNum 40)]) srv) =
     (\<lparr>status = 500,
       body = [(''success'', JBool False), (''message'', JStr ''mockData is not defined'')]\<rparr>,
      srv)"
  by (simp add: asyncHandler_def exports_getStatistics_def exports_updateStatistics_def
      robotController_def keys_def)

lemma mock_wired_post_statistics_15_40:
  "map_of (body (fst (asyncHandler False (exports_updateStatistics mock_wired_controller now
        (JObj [(''completedArea'', JNum 15), (''totalArea'', JNum 40)]) srv)))) ''data''
     = Some (JObj [(''completedArea'', JNum 15), (''totalArea'', JNum 40),
                   (''progress'', JNum (375 / 10))])"
  using progress_15_40 binary64_15
  by (simp add: asyncHandler_def exports_updateStatistics_def mock_wired_controller_def keys_def
      statsData_of_def num_property_def property_def updateStatistics_def Let_def
      toFixed1_number_def round1_def stats_json_def sendSuccess_data)

lemma ack_obj_no_success:
  "ack_key a \<noteq> ''success'' \<Longrightarrow> ''success'' \<notin> fst ` set (ack_obj a)"
  by (auto simp add: ack_obj_def)

lemma data_handleCommand_key: "ack_key (fst (data_handleCommand m http c srv)) = ''command''"
proof (cases m)
  case MockData
  then show ?thesis by (simp add: mock_handleCommand_def)
next
  case DataSource
  then show ?thesis by (simp add: case_prod_beta handleCommand_key)
qed

lemma data_handleAction_key: "ack_key (fst (data_handleAction m http c srv)) = ''action''"
proof (cases m)
  case MockData
  then show ?thesis by (simp add: mock_handleAction_def)
next
  case DataSource
  then show ?thesis by (simp add: case_prod_beta handleAction_key)
qed

lemma sendCommand_rejected:
  "\<not> truthy_str (cb_command b) \<Longrightarrow> \<not> truthy_str (cb_action b) \<Longrightarrow>
   route c production http now (POST_robot_control b) srv = (sendError msg_need_command 400, srv)"
  by (simp add: asyncHandler_def exports_sendCommand_def)

lemma sendCommand_command:
  "truthy_str (cb_command b) \<Longrightarrow>
   route c production http now (POST_robot_control b) srv =
     (sendSuccess now JNull
        (ack_obj (fst (data_handleCommand (data c) http (str_of (cb_command b)) srv))),
      snd (data_handleCommand (data c) http (str_of (cb_command b)) srv))"
  by (simp add: asyncHandler_def exports_sendCommand_def split: prod.splits)

lemma sendCommand_action:
  "\<not> truthy_str (cb_command b) \<Longrightarrow> truthy_str (cb_action b) \<Longrightarrow>
   route c production http now (POST_robot_control b) srv =
     (sendSuccess now JNull
        (ack_obj (fst (data_handleAction (data c) http (str_of (cb_action b)) srv))),
      snd (data_handleAction (data c) http (str_of (cb_action b)) srv))"
  by (simp add: asyncHandler_def exports_sendCommand_def split: prod.splits)

text \<open>
  Claim C2, as the code has it. Whichever data module the controller is wired to,
  POST /api/robot/control is answered 400 with
  \<open>success: false\<close> exactly when neither \<open>command\<close> nor \<open>action\<close> is supplied (both
  absent or empty); in every other case, also when both are supplied, it is answered 200
  with \<open>success: true\<close>. When \<open>command\<close> is supplied the request is handled as a command
  and \<open>action\<close> is not looked at: the outcome is that of the same request without
  \<open>action\<close>.
\<close>

theorem C2_control_rejected_only_when_both_missing:
  "status (fst (route c production http now (POST_robot_control b) srv)) =
     (if \<not> truthy_str (cb_command b) \<and> \<not> truthy_str (cb_action b) then 400 else 200)
   \<and> map_of (body (fst (route c production http now (POST_robot_control b) srv)))
        ''success'' = Some (JBool (truthy_str (cb_command b) \<or> truthy_str (cb_action b)))
   \<and> (if truthy_str (cb_command b)
       then route c production http now (POST_robot_control b) srv =
            route c production http now
              (POST_robot_control (b\<lparr>cb_action := None\<rparr>)) srv
       else True)"
proof (cases "truthy_str (cb_command b)")
  case True
  have k: "''success'' \<notin> fst ` set (ack_obj (fst (data_handleCommand (data c)
             http (str_of (cb_command b)) srv)))"
    by (rule ack_obj_no_success) (simp add: data_handleCommand_key)
  from True have t': "truthy_str (cb_command (b\<lparr>cb_action := None\<rparr>))" by simp
  show ?thesis
    using True k
    by (simp add: sendCommand_command [OF True] sendCommand_command [OF t']
        sendSuccess_status sendSuccess_success del: route.simps)
next
  case False
  show ?thesis
  proof (cases "truthy_str (cb_action b)")
    case True
    have k: "''success'' \<notin> fst ` set (ack_obj (fst (data_handleAction (data c)
               http (str_of (cb_action b)) srv)))"
      by (rule ack_obj_no_success) (simp add: data_handleAction_key)
    show ?thesis
      using False True k
      by (simp add: sendCommand_action [OF False True] sendSuccess_status sendSuccess_success
          del: route.simps)
  next
    case F2: False
    show ?thesis
      using False F2 by (simp add: sendCommand_rejected sendError_def del: route.simps)
  qed
qed

text \<open>Where C2 fails as it is stated: the body \<open>{"command": "forward", "action": "scan"}\<close>
  is answered 200 with \<open>success: true\<close> and the command \<open>forward\<close>.\<close>

theorem C2_both_present_accepted:
  "status (fst (route robotController False (Inr ()) 0
      (POST_robot_control \<lparr>cb_command = Some ''forward'', cb_action = Some ''scan''\<rparr>)
      initial_server)) = 200
   \<and> map_of (body (fst (route robotController False (Inr ()) 0
      (POST_robot_control \<lparr>cb_command = Some ''forward'', cb_action = Some ''scan''\<rparr>)
      initial_server))) ''success'' = Some (JBool True)
   \<and> map_of (body (fst (route robotController False (Inr ()) 0
      (POST_robot_control \<lparr>cb_command = Some ''forward'', cb_action = Some ''scan''\<rparr>)
      initial_server))) ''command'' = Some (JStr ''forward'')"
proof -
  have t: "truthy_str (cb_command \<lparr>cb_command = Some ''forward'', cb_action = Some ''scan''\<rparr>)"
    by (simp add: truthy_str_def)
  show ?thesis
    unfolding sendCommand_command [OF t]
    by (simp add: sendSuccess_def map_of_spread ack_obj_def robotController_def str_of_def
        handleCommand_def Let_def initial_server_def initial_dataSource_def split: prod.splits)
qed

section \<open>Properties of the alert service (alert.js)\<close>

lemma check_battery_only:
  "check now [(''battery'', v)] [] s =
     (if v < 20
      then trigger now ''lowBattery'' msg_lowBattery ''critical'' ''battery'' (Reading v) s
      else resolve ''lowBattery'' s)"
  by (simp add: check_def rules_def merge_data_def check_rule_def)

lemma assoc_set_new: "map_of xs k = None \<Longrightarrow> assoc_set k x xs = xs @ [(k, x)]"
  by (induction xs) (auto split: if_splits)

lemma trigger_fresh:
  assumes "map_of (activeAlerts s) ruleId = None"
  shows "trigger now ruleId message level fld v s =
     (let a = \<lparr>alert_id = ruleId, alert_message = (message, v, getUnit fld),
               alert_level = level, alert_time = now, alert_value = v\<rparr>;
          s3 = showNotification a
                 (addToHistory a (s\<lparr>activeAlerts := activeAlerts s @ [(ruleId, a)]\<rparr>))
      in if soundEnabled s \<and> level = ''critical'' then playAlertSound s3 else s3)"
  using assms assoc_set_new [OF assms]
  by (simp add: trigger_def Let_def showNotification_def addToHistory_def)

lemma trigger_cooldown:
  "map_of (activeAlerts s) ruleId = Some e \<Longrightarrow> now - alert_time e < alertCooldown \<Longrightarrow>
   trigger now ruleId message level fld v s = s"
  by (simp add: trigger_def Let_def)

lemma active_after_trigger:
  "map_of (activeAlerts s) ruleId = None \<Longrightarrow>
   map_of (activeAlerts (trigger now ruleId message level fld v s)) ruleId =
     Some \<lparr>alert_id = ruleId, alert_message = (message, v, getUnit fld),
           alert_level = level, alert_time = now, alert_value = v\<rparr>"
  by (simp add: trigger_fresh Let_def showNotification_def addToHistory_def playAlertSound_def
      map_add_def)

lemma container_after_trigger:
  "map_of (activeAlerts s) ruleId = None \<Longrightarrow>
   alertContainer (trigger now ruleId message level fld v s) =
     map_option (\<lambda>ns. ns @ [\<lparr>alert_id = ruleId, alert_message = (message, v, getUnit fld),
           alert_level = level, alert_time = now, alert_value = v\<rparr>]) (alertContainer s)"
  by (simp add: trigger_fresh Let_def showNotification_def addToHistory_def playAlertSound_def)

lemma count_after_trigger:
  "map_of (activeAlerts s) ruleId = None \<Longrightarrow>
   getActiveCount (trigger now ruleId message level fld v s) = getActiveCount s + 1"
  by (simp add: trigger_fresh Let_def showNotification_def addToHistory_def playAlertSound_def
      getActiveCount_def)

text \<open>
  Claim C7, as the code has it. From a state with no active low-battery alert and with
  the notification container on the page, the evaluations battery 15, battery 16,
  battery 15, the second and third less than the cooldown after the first: the first adds
  exactly one notification and one active alert (value 15, time of the first evaluation);
  the second changes nothing, since 16 is still below the threshold 20 and the alert is
  inside its cooldown, so the alert is not cleared; the third changes nothing either. The
  alert is active throughout.
\<close>

theorem C7_low_battery_sequence:
  assumes "map_of (activeAlerts s0) ''lowBattery'' = None"
    and "alertContainer s0 = Some ns"
    and "t1 - t0 < alertCooldown" and "t2 - t0 < alertCooldown"
  shows "alertContainer (check t0 [(''battery'', 15)] [] s0) =
           Some (ns @ [\<lparr>alert_id = ''lowBattery'',
                        alert_message = (msg_lowBattery, Reading 15, ''%''),
                        alert_level = ''critical'', alert_time = t0, alert_value = Reading 15\<rparr>])
       \<and> map_of (activeAlerts (check t0 [(''battery'', 15)] [] s0)) ''lowBattery'' =
           Some \<lparr>alert_id = ''lowBattery'', alert_message = (msg_lowBattery, Reading 15, ''%''),
                 alert_level = ''critical'', alert_time = t0, alert_value = Reading 15\<rparr>
       \<and> getActiveCount (check t0 [(''battery'', 15)] [] s0) = getActiveCount s0 + 1
       \<and> check t1 [(''battery'', 16)] [] (check t0 [(''battery'', 15)] [] s0)
           = check t0 [(''battery'', 15)] [] s0
       \<and> check t2 [(''battery'', 15)] []
           (check t1 [(''battery'', 16)] [] (check t0 [(''battery'', 15)] [] s0))
           = check t0 [(''battery'', 15)] [] s0"
proof -
  let ?s1 = "check t0 [(''battery'', 15)] [] s0"
  let ?a = "\<lparr>alert_id = ''lowBattery'', alert_message = (msg_lowBattery, Reading 15, ''%''),
             alert_level = ''critical'', alert_time = t0, alert_value = Reading 15\<rparr>"
  have s1: "?s1 = trigger t0 ''lowBattery'' msg_lowBattery ''critical'' ''battery'' (Reading 15) s0"
    by (simp add: check_battery_only)
  have c: "alertContainer ?s1 = Some (ns @ [?a])"
    unfolding s1 by (simp add: container_after_trigger [OF assms(1)] assms(2) getUnit_def)
  have a: "map_of (activeAlerts ?s1) ''lowBattery'' = Some ?a"
    unfolding s1 by (simp add: active_after_trigger [OF assms(1)] getUnit_def)
  have n: "getActiveCount ?s1 = getActiveCount s0 + 1"
    unfolding s1 by (rule count_after_trigger [OF assms(1)])
  have s2: "check t1 [(''battery'', 16)] [] ?s1 = ?s1"
    using trigger_cooldown [OF a, of t1] assms(3) by (simp add: check_battery_only [of t1])
  have s3: "check t2 [(''battery'', 15)] [] ?s1 = ?s1"
    using trigger_cooldown [OF a, of t2] assms(4) by (simp add: check_battery_only [of t2])
  from c a n s2 s3 show ?thesis by simp
qed

text \<open>The statement at the service after \<open>init\<close>, with evaluations at 1, 2 and 3
  seconds.\<close>

theorem C7_low_battery_sequence_witness:
  "map_of (activeAlerts (init initial_alertService)) ''lowBattery'' = None
   \<and> alertContainer (init initial_alertService) = Some []
   \<and> (2000::int) - 1000 < alertCooldown \<and> (3000::int) - 1000 < alertCooldown
   \<and> alertContainer (check 1000 [(''battery'', 15)] [] (init initial_alertService)) =
           Some [\<lparr>alert_id = ''lowBattery'',
                        alert_message = (msg_lowBattery, Reading 15, ''%''),
                        alert_level = ''critical'', alert_time = 1000, alert_value = Reading 15\<rparr>]
   \<and> check 3000 [(''battery'', 15)] []
           (check 2000 [(''battery'', 16)] []
              (check 1000 [(''battery'', 15)] [] (init initial_alertService)))
           = check 1000 [(''battery'', 15)] [] (init initial_alertService)"
proof -
  have h1: "map_of (activeAlerts (init initial_alertService)) ''lowBattery'' = None"
    by (simp add: init_def initial_alertService_def)
  have h2: "alertContainer (init initial_alertService) = Some []"
    by (simp add: init_def initial_alertService_def)
  have h3: "(2000::int) - 1000 < alertCooldown" by (simp add: alertCooldown_def)
  have h4: "(3000::int) - 1000 < alertCooldown" by (simp add: alertCooldown_def)
  note r = C7_low_battery_sequence [OF h1 h2 h3 h4]
  from r have c1: "alertContainer (check 1000 [(''battery'', 15)] [] (init initial_alertService)) =
           Some [\<lparr>alert_id = ''lowBattery'',
                        alert_message = (msg_lowBattery, Reading 15, ''%''),
                        alert_level = ''critical'', alert_time = 1000, alert_value = Reading 15\<rparr>]"
    by simp
  from r have c2: "check 3000 [(''battery'', 15)] []
           (check 2000 [(''battery'', 16)] []
              (check 1000 [(''battery'', 15)] [] (init initial_alertService)))
           = check 1000 [(''battery'', 15)] [] (init initial_alertService)"
    by blast
  from h1 h2 h3 h4 c1 c2 show ?thesis by blast
qed

text \<open>Where C7 fails as it is stated: after battery 15 at time 0 and battery 16 one second
  later, the low-battery alert of the first evaluation is still in the map of active
  alerts; the second evaluation did not clear it.\<close>

theorem C7_battery_16_does_not_clear:
  "map_of (activeAlerts (check 1000 [(''battery'', 16)] []
            (check 0 [(''battery'', 15)] [] (init initial_alertService)))) ''lowBattery''
     = Some \<lparr>alert_id = ''lowBattery'', alert_message = (msg_lowBattery, Reading 15, ''%''),
             alert_level = ''critical'', alert_time = 0, alert_value = Reading 15\<rparr>"
proof -
  have n: "map_of (activeAlerts (init initial_alertService)) ''lowBattery'' = None"
    by (simp add: init_def initial_alertService_def)
  have a: "map_of (activeAlerts (check 0 [(''battery'', 15)] [] (init initial_alertService)))
       ''lowBattery''
     = Some \<lparr>alert_id = ''lowBattery'', alert_message = (msg_lowBattery, Reading 15, ''%''),
             alert_level = ''critical'', alert_time = 0, alert_value = Reading 15\<rparr>"
    by (simp add: check_battery_only active_after_trigger [OF n] getUnit_def)
  have "check 1000 [(''battery'', 16)] [] (check 0 [(''battery'', 15)] [] (init initial_alertService))
        = check 0 [(''battery'', 15)] [] (init initial_alertService)"
    using trigger_cooldown [OF a, of 1000]
    by (simp add: check_battery_only [of 1000] alertCooldown_def)
  with a show ?thesis by simp
qed

text \<open>A reading that does clear the alert (25) removes the entry on which the cooldown
  is kept, so a drop to 15 one second later adds a second notification.\<close>

lemma cleared_then_dropped_emits_again:
  "alertContainer (check 2000 [(''battery'', 15)] []
      (check 1000 [(''battery'', 25)] []
         (check 0 [(''battery'', 15)] [] (init initial_alertService))))
   = Some [\<lparr>alert_id = ''lowBattery'', alert_message = (msg_lowBattery, Reading 15, ''%''),
             alert_level = ''critical'', alert_time = 0, alert_value = Reading 15\<rparr>,
           \<lparr>alert_id = ''lowBattery'', alert_message = (msg_lowBattery, Reading 15, ''%''),
             alert_level = ''critical'', alert_time = 2000, alert_value = Reading 15\<rparr>]"
  by (simp add: check_battery_only trigger_def resolve_def init_def initial_alertService_def
      Let_def showNotification_def addToHistory_def playAlertSound_def getUnit_def
      maxHistory_def)

section \<open>Properties of the status refresh (app.js)\<close>

lemma onFailure_idle: "\<not> isConnected st \<Longrightarrow> onFailure now st = st"
  by (simp add: onFailure_def)

lemma onFailure_fires:
  "isConnected st \<Longrightarrow>
   onFailure now st =
     st\<lparr>isConnected := False,
        statusIndicator :=
          map_option (\<lambda>_. ''status-dot status-dot--offline'') (statusIndicator st),
        statusText := map_option (\<lambda>_. txt_not_connected) (statusText st),
        logList := map_option
            (\<lambda>items. take maxItems
               (\<lparr>log_time = now, log_message = msg_backend_lost, log_type = ''error''\<rparr> # items))
            (logList st),
        alertSvc := map_option (checkConnection now False) (alertSvc st)\<rparr>"
  by (simp add: onFailure_def Let_def setConnectionStatus_def log_add_def)

lemma rejected_idle:
  "\<not> isConnected st \<Longrightarrow> run_refresh st (map (\<lambda>t. (t, Rejected)) ts) = st"
  unfolding run_refresh_def
  by (induction ts) (simp_all add: onFailure_idle)

text \<open>Which rules have an active alert: \<open>trigger\<close> and \<open>resolve\<close> change this for their own
  rule only, so \<open>check\<close>, which goes through the rules of the table, leaves the alert of
  the lost connection as it is.\<close>

lemma keys_assoc_set: "fst ` set (assoc_set k v xs) = insert k (fst ` set xs)"
  by (induction xs) (auto split: if_splits simp add: rev_image_eqI)

lemma trigger_keys:
  "k \<noteq> ruleId \<Longrightarrow>
   (k \<in> fst ` set (activeAlerts (trigger now ruleId message level fld v s)))
     = (k \<in> fst ` set (activeAlerts s))"
  by (simp add: trigger_def Let_def keys_assoc_set addToHistory_def showNotification_def
      playAlertSound_def)

lemma resolve_keys:
  "k \<noteq> ruleId \<Longrightarrow>
   (k \<in> fst ` set (activeAlerts (resolve ruleId s))) = (k \<in> fst ` set (activeAlerts s))"
  by (auto simp add: resolve_def rev_image_eqI)

lemma resolve_removes: "ruleId \<notin> fst ` set (activeAlerts (resolve ruleId s))"
  by (auto simp add: resolve_def)

lemma check_rule_keys:
  "k \<noteq> fst entry \<Longrightarrow>
   (k \<in> fst ` set (activeAlerts (check_rule now allData s entry)))
     = (k \<in> fst ` set (activeAlerts s))"
  by (simp add: check_rule_def Let_def trigger_keys resolve_keys split: option.splits)

lemma foldl_check_rule_keys:
  "k \<notin> fst ` set rs \<Longrightarrow>
   (k \<in> fst ` set (activeAlerts (foldl (check_rule now allData) s rs)))
     = (k \<in> fst ` set (activeAlerts s))"
  by (induction rs arbitrary: s) (simp_all add: check_rule_keys)

lemma check_keeps_disconnected:
  "(''disconnected'' \<in> fst ` set (activeAlerts (check now robotData sensorData s)))
     = (''disconnected'' \<in> fst ` set (activeAlerts s))"
  unfolding check_def by (rule foldl_check_rule_keys) (simp add: rules_def)

text \<open>No run of the refresh makes a state that is connected and has an active alert of
  the lost connection: the tick that connects resolves that alert, and only the tick
  that disconnects raises it.\<close>

lemma onSuccess_keeps:
  assumes "\<not> (isConnected st \<and> alert_active ''disconnected'' st)"
  shows "\<not> alert_active ''disconnected'' (snd (onSuccess now d st))
         \<or> fst (onSuccess now d st) \<noteq> None"
proof (cases "rs_coordinates d")
  case None
  then show ?thesis by (simp add: onSuccess_def Let_def)
next
  case (Some c)
  show ?thesis
  proof (cases "alertSvc st")
    case None
    then show ?thesis
      using Some
      by (simp add: onSuccess_def Let_def alert_active_def setConnectionStatus_def log_add_def)
  next
    case (Some a) note svc = this
    show ?thesis
    proof (cases "isConnected st")
      case True
      with assms svc have "''disconnected'' \<notin> fst ` set (activeAlerts a)"
        by (simp add: alert_active_def)
      with True svc \<open>rs_coordinates d = Some c\<close> show ?thesis
        by (simp add: onSuccess_def Let_def alert_active_def check_keeps_disconnected)
    next
      case False
      with svc \<open>rs_coordinates d = Some c\<close> show ?thesis
        by (simp add: onSuccess_def Let_def alert_active_def check_keeps_disconnected
            checkConnection_def resolve_removes setConnectionStatus_def log_add_def)
    qed
  qed
qed

lemma onFailure_keeps:
  "\<not> (isConnected st \<and> alert_active ''disconnected'' st) \<Longrightarrow>
   \<not> (isConnected (onFailure now st) \<and> alert_active ''disconnected'' (onFailure now st))"
  by (cases "isConnected st") (simp_all add: onFailure_fires onFailure_idle)

lemma refresh_keeps:
  assumes "\<not> (isConnected st \<and> alert_active ''disconnected'' st)"
  shows "\<not> (isConnected (refresh st ev) \<and> alert_active ''disconnected'' (refresh st ev))"
proof -
  obtain now outcome where ev: "ev = (now, outcome)" by (cases ev)
  show ?thesis
  proof (cases outcome)
    case Rejected
    with ev assms show ?thesis by (simp add: onFailure_keeps)
  next
    case (Resolved success d)
    show ?thesis
    proof (cases success)
      case False
      with ev Resolved assms show ?thesis by simp
    next
      case True
      obtain e s where r: "onSuccess now d st = (e, s)" by (cases "onSuccess now d st")
      show ?thesis
      proof (cases e)
        case None
        with onSuccess_keeps [OF assms, of now d] r
        have "\<not> alert_active ''disconnected'' s" by simp
        with ev Resolved True r None show ?thesis by simp
      next
        case (Some err)
        have "s = st\<lparr>robot := d\<rparr>"
          using r Some by (simp add: onSuccess_def Let_def split: option.splits)
        with assms have "\<not> (isConnected s \<and> alert_active ''disconnected'' s)"
          by (simp add: alert_active_def)
        then have "\<not> (isConnected (onFailure now s)
                       \<and> alert_active ''disconnected'' (onFailure now s))"
          by (rule onFailure_keeps)
        with ev Resolved True r Some show ?thesis by simp
      qed
    qed
  qed
qed

lemma run_refresh_keeps:
  "\<not> (isConnected st \<and> alert_active ''disconnected'' st) \<Longrightarrow>
   \<not> (isConnected (run_refresh st events)
       \<and> alert_active ''disconnected'' (run_refresh st events))"
  unfolding run_refresh_def
proof (induction events arbitrary: st)
  case Nil
  then show ?case by simp
next
  case (Cons ev events)
  from Cons.prems have "\<not> (isConnected (refresh st ev)
      \<and> alert_active ''disconnected'' (refresh st ev))"
    by (rule refresh_keeps)
  then show ?case using Cons.IH [of "refresh st ev"] by simp
qed

text \<open>The sensor refresh, which runs beside the status refresh, stores its data in
  \<open>State.sensors\<close> and calls \<open>check(State.robot, data)\<close>; that does not change whether
  the alert of the lost connection is active, nor \<open>State.isConnected\<close>.\<close>

lemma sensor_check_keeps:
  "alert_active ''disconnected''
     (st\<lparr>sensors := d,
         alertSvc := map_option (check now (rs_fields (robot st)) d) (alertSvc st)\<rparr>)
     = alert_active ''disconnected'' st"
  by (cases "alertSvc st") (simp_all add: alert_active_def check_keeps_disconnected)

text \<open>What \<open>checkConnection(false)\<close> does when no alert of the lost connection is active:
  the alert is raised.\<close>

lemma checkConnection_false_raises:
  assumes "''disconnected'' \<notin> fst ` set (activeAlerts s)"
  shows "checkConnection now False s =
     (let a = \<lparr>alert_id = ''disconnected'',
               alert_message = (msg_disconnected, Text txt_offline, []),
               alert_level = ''critical'', alert_time = now,
               alert_value = Text txt_offline\<rparr>
      in s\<lparr>activeAlerts := activeAlerts s @ [(''disconnected'', a)],
           alertHistory :=
             (let h = a # alertHistory s in if length h > maxHistory then butlast h else h),
           alertContainer := map_option (\<lambda>ns. ns @ [a]) (alertContainer s),
           sounds := (if soundEnabled s then sounds s + 1 else sounds s)\<rparr>)"
proof -
  from assms have n: "map_of (activeAlerts s) ''disconnected'' = None"
    by (simp add: map_of_eq_None_iff)
  show ?thesis
    by (simp add: checkConnection_def trigger_fresh [OF n] Let_def getUnit_def
        Object_prototype_def showNotification_def addToHistory_def playAlertSound_def)
qed

text \<open>
  Claim C8. Take any run of the status refresh, from a state that is not at once
  connected and under an alert of the lost connection (the page as loaded is not
  connected), and let it end in a connected state. Then one or more ticks whose fetches
  all fail end in the state that the first failing tick alone produces. That state is
  the connected state with \<open>isConnected\<close> false, the status shown as offline, one error
  item for the lost connection prepended to the log, and, in the alert service, the alert
  \<open>disconnected\<close> of level critical raised once: it is added to the active alerts and to
  the history, one notification of it is appended to the alert container, and the sound
  is played once if it is enabled. The log item and the alert carry the time of the
  first failing tick. Any further failing tick leaves that state as it is.
\<close>

theorem C8_disconnected_fires_once:
  assumes "\<not> (isConnected st0 \<and> alert_active ''disconnected'' st0)"
    and "st = run_refresh st0 events"
    and "isConnected st" and "ts \<noteq> []"
  shows "run_refresh st (map (\<lambda>t. (t, Rejected)) ts) = refresh st (hd ts, Rejected)
       \<and> refresh st (hd ts, Rejected) =
           st\<lparr>isConnected := False,
              statusIndicator :=
                map_option (\<lambda>_. ''status-dot status-dot--offline'') (statusIndicator st),
              statusText := map_option (\<lambda>_. txt_not_connected) (statusText st),
              logList := map_option
                (\<lambda>items. take maxItems
                   (\<lparr>log_time = hd ts, log_message = msg_backend_lost, log_type = ''error''\<rparr>
                    # items))
                (logList st),
              alertSvc := map_option
                (\<lambda>s. let a = \<lparr>alert_id = ''disconnected'',
                               alert_message = (msg_disconnected, Text txt_offline, []),
                               alert_level = ''critical'', alert_time = hd ts,
                               alert_value = Text txt_offline\<rparr>
                      in s\<lparr>activeAlerts := activeAlerts s @ [(''disconnected'', a)],
                           alertHistory :=
                             (let h = a # alertHistory s
                              in if length h > maxHistory then butlast h else h),
                           alertContainer := map_option (\<lambda>ns. ns @ [a]) (alertContainer s),
                           sounds := (if soundEnabled s then sounds s + 1 else sounds s)\<rparr>)
                (alertSvc st)\<rparr>
       \<and> (\<forall>t. refresh (refresh st (hd ts, Rejected)) (t, Rejected)
              = refresh st (hd ts, Rejected))"
proof -
  from assms(4) obtain t0 rest where ts: "ts = t0 # rest" by (cases ts) auto
  have off: "\<not> isConnected (onFailure t0 st)"
    using assms(3) by (simp add: onFailure_fires)
  have "run_refresh st (map (\<lambda>t. (t, Rejected)) ts)
          = run_refresh (onFailure t0 st) (map (\<lambda>t. (t, Rejected)) rest)"
    by (simp add: ts run_refresh_def)
  also have "\<dots> = onFailure t0 st" by (rule rejected_idle [OF off])
  finally have a: "run_refresh st (map (\<lambda>t. (t, Rejected)) ts) = refresh st (hd ts, Rejected)"
    by (simp add: ts)
  have b: "refresh st (hd ts, Rejected) = onFailure t0 st" by (simp add: ts)
  have c: "\<forall>t. refresh (onFailure t0 st) (t, Rejected) = onFailure t0 st"
    using off by (simp add: onFailure_idle)
  have "\<not> (isConnected st \<and> alert_active ''disconnected'' st)"
    unfolding assms(2) by (rule run_refresh_keeps [OF assms(1)])
  with assms(3) have quiet: "\<not> alert_active ''disconnected'' st" by simp
  have d: "map_option (checkConnection t0 False) (alertSvc st) =
      map_option
        (\<lambda>s. let a = \<lparr>alert_id = ''disconnected'',
                       alert_message = (msg_disconnected, Text txt_offline, []),
                       alert_level = ''critical'', alert_time = t0,
                       alert_value = Text txt_offline\<rparr>
              in s\<lparr>activeAlerts := activeAlerts s @ [(''disconnected'', a)],
                   alertHistory :=
                     (let h = a # alertHistory s
                      in if length h > maxHistory then butlast h else h),
                   alertContainer := map_option (\<lambda>ns. ns @ [a]) (alertContainer s),
                   sounds := (if soundEnabled s then sounds s + 1 else sounds s)\<rparr>)
        (alertSvc st)"
  proof (cases "alertSvc st")
    case None
    then show ?thesis by simp
  next
    case (Some s)
    with quiet have "''disconnected'' \<notin> fst ` set (activeAlerts s)"
      by (simp add: alert_active_def)
    from checkConnection_false_raises [OF this, of t0] Some show ?thesis by simp
  qed
  have e: "onFailure t0 st =
      st\<lparr>isConnected := False,
         statusIndicator :=
           map_option (\<lambda>_. ''status-dot status-dot--offline'') (statusIndicator st),
         statusText := map_option (\<lambda>_. txt_not_connected) (statusText st),
         logList := map_option
           (\<lambda>items. take maxItems
              (\<lparr>log_time = t0, log_message = msg_backend_lost, log_type = ''error''\<rparr> # items))
           (logList st),
         alertSvc := map_option
           (\<lambda>s. let a = \<lparr>alert_id = ''disconnected'',
                          alert_message = (msg_disconnected, Text txt_offline, []),
                          alert_level = ''critical'', alert_time = t0,
                          alert_value = Text txt_offline\<rparr>
                 in s\<lparr>activeAlerts := activeAlerts s @ [(''disconnected'', a)],
                      alertHistory :=
                        (let h = a # alertHistory s
                         in if length h > maxHistory then butlast h else h),
                      alertContainer := map_option (\<lambda>ns. ns @ [a]) (alertContainer s),
                      sounds := (if soundEnabled s then sounds s + 1 else sounds s)\<rparr>)
           (alertSvc st)\<rparr>"
    unfolding onFailure_fires [OF assms(3), of t0] d ..
  have t: "hd ts = t0" by (simp add: ts)
  from a b c e show ?thesis unfolding t by simp
qed

text \<open>The first successful fetch on the page as loaded: the page is connected, the log
  has the item of the connection, and the alert service holds the two alerts that the
  sensor values of the \<open>State\<close> literal (all 0) raise.\<close>

lemma after_first_success:
  "run_refresh initial_app
     [(0, Resolved True \<lparr>rs_fields = [(''battery'', 85), (''speed'', 1), (''temperature'', 28)],
                         rs_coordinates = Some (40, 116)\<rparr>)] =
   \<lparr>isConnected = True,
    robot = \<lparr>rs_fields = [(''battery'', 85), (''speed'', 1), (''temperature'', 28)],
             rs_coordinates = Some (40, 116)\<rparr>,
    sensors = [(''soilHumidity'', 0), (''soilTemp'', 0), (''light'', 0), (''airHumidity'', 0)],
    statusIndicator = Some ''status-dot status-dot--online'',
    statusText = Some txt_connected,
    logList = Some [\<lparr>log_time = 0, log_message = msg_connected, log_type = ''info''\<rparr>],
    alertSvc = Some
      \<lparr>activeAlerts =
         [(''lowSoilHumidity'',
           \<lparr>alert_id = ''lowSoilHumidity'',
            alert_message = (msg_lowSoilHumidity, Reading 0, ''%''),
            alert_level = ''warning'', alert_time = 0, alert_value = Reading 0\<rparr>),
          (''lowLight'',
           \<lparr>alert_id = ''lowLight'', alert_message = (msg_lowLight, Reading 0, '' Lux''),
            alert_level = ''info'', alert_time = 0, alert_value = Reading 0\<rparr>)],
       alertHistory =
         [\<lparr>alert_id = ''lowLight'', alert_message = (msg_lowLight, Reading 0, '' Lux''),
           alert_level = ''info'', alert_time = 0, alert_value = Reading 0\<rparr>,
          \<lparr>alert_id = ''lowSoilHumidity'',
           alert_message = (msg_lowSoilHumidity, Reading 0, ''%''),
           alert_level = ''warning'', alert_time = 0, alert_value = Reading 0\<rparr>],
       alertContainer = Some
         [\<lparr>alert_id = ''lowSoilHumidity'',
           alert_message = (msg_lowSoilHumidity, Reading 0, ''%''),
           alert_level = ''warning'', alert_time = 0, alert_value = Reading 0\<rparr>,
          \<lparr>alert_id = ''lowLight'', alert_message = (msg_lowLight, Reading 0, '' Lux''),
           alert_level = ''info'', alert_time = 0, alert_value = Reading 0\<rparr>],
       soundEnabled = True, sounds = 0\<rparr>\<rparr>"
  by (simp add: run_refresh_def onSuccess_def Let_def initial_app_def setConnectionStatus_def
      log_add_def maxItems_def checkConnection_def resolve_def init_def
      initial_alertService_def check_def rules_def merge_data_def check_rule_def trigger_def
      getUnit_def addToHistory_def showNotification_def maxHistory_def)

text \<open>The statement at the page as loaded, one successful fetch at time 0, and three
  failing ticks at the times 1000, 3000 and 5000: the page is shown as not connected, the
  log holds the one error item of the first failing tick above the item of the
  connection, the alert container holds one notification of the lost connection, of the
  time 1000, after the two of the sensors, and the sound was played once.\<close>

theorem C8_disconnected_fires_once_witness:
  "\<not> (isConnected initial_app \<and> alert_active ''disconnected'' initial_app)
   \<and> isConnected (run_refresh initial_app
        [(0, Resolved True \<lparr>rs_fields = [(''battery'', 85), (''speed'', 1), (''temperature'', 28)],
                            rs_coordinates = Some (40, 116)\<rparr>)])
   \<and> [1000, 3000, 5000 :: int] \<noteq> []
   \<and> isConnected (run_refresh (run_refresh initial_app
        [(0, Resolved True \<lparr>rs_fields = [(''battery'', 85), (''speed'', 1), (''temperature'', 28)],
                            rs_coordinates = Some (40, 116)\<rparr>)])
        [(1000, Rejected), (3000, Rejected), (5000, Rejected)]) = False
   \<and> logList (run_refresh (run_refresh initial_app
        [(0, Resolved True \<lparr>rs_fields = [(''battery'', 85), (''speed'', 1), (''temperature'', 28)],
                            rs_coordinates = Some (40, 116)\<rparr>)])
        [(1000, Rejected), (3000, Rejected), (5000, Rejected)])
       = Some [\<lparr>log_time = 1000, log_message = msg_backend_lost, log_type = ''error''\<rparr>,
               \<lparr>log_time = 0, log_message = msg_connected, log_type = ''info''\<rparr>]
   \<and> map_option alertContainer (alertSvc (run_refresh (run_refresh initial_app
        [(0, Resolved True \<lparr>rs_fields = [(''battery'', 85), (''speed'', 1), (''temperature'', 28)],
                            rs_coordinates = Some (40, 116)\<rparr>)])
        [(1000, Rejected), (3000, Rejected), (5000, Rejected)]))
       = Some (Some
         [\<lparr>alert_id = ''lowSoilHumidity'',
           alert_message = (msg_lowSoilHumidity, Reading 0, ''%''),
           alert_level = ''warning'', alert_time = 0, alert_value = Reading 0\<rparr>,
          \<lparr>alert_id = ''lowLight'', alert_message = (msg_lowLight, Reading 0, '' Lux''),
           alert_level = ''info'', alert_time = 0, alert_value = Reading 0\<rparr>,
          \<lparr>alert_id = ''disconnected'',
           alert_message = (msg_disconnected, Text txt_offline, []),
           alert_level = ''critical'', alert_time = 1000, alert_value = Text txt_offline\<rparr>])
   \<and> map_option sounds (alertSvc (run_refresh (run_refresh initial_app
        [(0, Resolved True \<lparr>rs_fields = [(''battery'', 85), (''speed'', 1), (''temperature'', 28)],
                            rs_coordinates = Some (40, 116)\<rparr>)])
        [(1000, Rejected), (3000, Rejected), (5000, Rejected)])) = Some 1"
proof -
  let ?ev = "[(0 :: int, Resolved True
      \<lparr>rs_fields = [(''battery'', 85), (''speed'', 1), (''temperature'', 28)],
       rs_coordinates = Some (40, 116)\<rparr>)]"
  let ?st = "run_refresh initial_app ?ev"
  let ?end = "run_refresh ?st [(1000, Rejected), (3000, Rejected), (5000, Rejected)]"
  have i: "\<not> (isConnected initial_app \<and> alert_active ''disconnected'' initial_app)"
    by (simp add: initial_app_def)
  have c: "isConnected ?st" by (simp only: after_first_success) simp
  have n: "[1000, 3000, 5000 :: int] \<noteq> []" by simp
  note r = C8_disconnected_fires_once [OF i refl c n]
  from r have a: "?end = refresh ?st (1000, Rejected)"
    by simp
  from r have "refresh ?st (1000, Rejected) =
           ?st\<lparr>isConnected := False,
              statusIndicator :=
                map_option (\<lambda>_. ''status-dot status-dot--offline'') (statusIndicator ?st),
              statusText := map_option (\<lambda>_. txt_not_connected) (statusText ?st),
              logList := map_option
                (\<lambda>items. take maxItems
                   (\<lparr>log_time = 1000, log_message = msg_backend_lost, log_type = ''error''\<rparr>
                    # items))
                (logList ?st),
              alertSvc := map_option
                (\<lambda>s. let a = \<lparr>alert_id = ''disconnected'',
                               alert_message = (msg_disconnected, Text txt_offline, []),
                               alert_level = ''critical'', alert_time = 1000,
                               alert_value = Text txt_offline\<rparr>
                      in s\<lparr>activeAlerts := activeAlerts s @ [(''disconnected'', a)],
                           alertHistory :=
                             (let h = a # alertHistory s
                              in if length h > maxHistory then butlast h else h),
                           alertContainer := map_option (\<lambda>ns. ns @ [a]) (alertContainer s),
                           sounds := (if soundEnabled s then sounds s + 1 else sounds s)\<rparr>)
                (alertSvc ?st)\<rparr>"
    by simp
  with a have e: "?end =
           ?st\<lparr>isConnected := False,
              statusIndicator :=
                map_option (\<lambda>_. ''status-dot status-dot--offline'') (statusIndicator ?st),
              statusText := map_option (\<lambda>_. txt_not_connected) (statusText ?st),
              logList := map_option
                (\<lambda>items. take maxItems
                   (\<lparr>log_time = 1000, log_message = msg_backend_lost, log_type = ''error''\<rparr>
                    # items))
                (logList ?st),
              alertSvc := map_option
                (\<lambda>s. let a = \<lparr>alert_id = ''disconnected'',
                               alert_message = (msg_disconnected, Text txt_offline, []),
                               alert_level = ''critical'', alert_time = 1000,
                               alert_value = Text txt_offline\<rparr>
                      in s\<lparr>activeAlerts := activeAlerts s @ [(''disconnected'', a)],
                           alertHistory :=
                             (let h = a # alertHistory s
                              in if length h > maxHistory then butlast h else h),
                           alertContainer := map_option (\<lambda>ns. ns @ [a]) (alertContainer s),
                           sounds := (if soundEnabled s then sounds s + 1 else sounds s)\<rparr>)
                (alertSvc ?st)\<rparr>"
    by (rule trans)
  have 1: "isConnected ?end = False" unfolding e by simp
  have 2: "logList ?end
       = Some [\<lparr>log_time = 1000, log_message = msg_backend_lost, log_type = ''error''\<rparr>,
               \<lparr>log_time = 0, log_message = msg_connected, log_type = ''info''\<rparr>]"
    unfolding e by (simp add: after_first_success maxItems_def)
  have 3: "map_option alertContainer (alertSvc ?end)
       = Some (Some
         [\<lparr>alert_id = ''lowSoilHumidity'',
           alert_message = (msg_lowSoilHumidity, Reading 0, ''%''),
           alert_level = ''warning'', alert_time = 0, alert_value = Reading 0\<rparr>,
          \<lparr>alert_id = ''lowLight'', alert_message = (msg_lowLight, Reading 0, '' Lux''),
           alert_level = ''info'', alert_time = 0, alert_value = Reading 0\<rparr>,
          \<lparr>alert_id = ''disconnected'',
           alert_message = (msg_disconnected, Text txt_offline, []),
           alert_level = ''critical'', alert_time = 1000, alert_value = Text txt_offline\<rparr>])"
    unfolding e by (simp add: after_first_success Let_def)
  have 4: "map_option sounds (alertSvc ?end) = Some 1"
    unfolding e by (simp add: after_first_success Let_def)
  from i c n 1 2 3 4 show ?thesis by blast
qed

end
